theory Spec2Isabelle
  imports Main
begin

section \<open>Python values as the agent receives them\<close>

text \<open>
  A task reaches the agent as the result of \<open>response.json()\<close>: \<open>None\<close>, booleans,
  unbounded integers, floats, strings, lists and dictionaries.  A finite float is kept as
  the dyadic rational it denotes, \<open>Finite m e\<close> standing for \<open>m * 2 ^ e\<close>.  A dictionary is
  the list of its items in insertion order.  Strings are sequences of code points below
  256.  An integer of a task has at most 4300 decimal digits, since \<open>json.loads\<close> builds
  no other (\<open>printable\<close> below); on such values \<open>str\<close>, the f-strings and the \<open>print\<close>
  statements of the code never raise, and the \<open>print\<close> statements are left out.
\<close>

datatype pyfloat = Finite int int | PosInf | NegInf | NaN

datatype pyval =
    PNone
  | PBool bool
  | PInt int
  | PFloat pyfloat
  | PStr string
  | PList "pyval list"
  | PDict "(pyval \<times> pyval) list"

datatype py_error =
    TypeError
  | ValueError
  | OverflowError
  | AttributeError
  | CalledProcessError int
  | PortsBusy "string list"
  | ImageUnavailable pyval
  | OtherError

text \<open>Truthiness, as \<open>if x\<close>, \<open>not x\<close> and \<open>x or y\<close> test it.\<close>

fun py_truthy :: "pyval \<Rightarrow> bool" where
  "py_truthy PNone = False"
| "py_truthy (PBool b) = b"
| "py_truthy (PInt n) = (n \<noteq> 0)"
| "py_truthy (PFloat (Finite m e)) = (m \<noteq> 0)"
| "py_truthy (PFloat PosInf) = True"
| "py_truthy (PFloat NegInf) = True"
| "py_truthy (PFloat NaN) = True"
| "py_truthy (PStr s) = (s \<noteq> [])"
| "py_truthy (PList xs) = (xs \<noteq> [])"
| "py_truthy (PDict kvs) = (kvs \<noteq> [])"

definition py_or :: "pyval \<Rightarrow> pyval \<Rightarrow> pyval" where
  "py_or a b = (if py_truthy a then a else b)"

text \<open>\<open>d.get(k)\<close> and \<open>d.get(k, default)\<close> for a string key \<open>k\<close>.\<close>

definition dict_get_default :: "(pyval \<times> pyval) list \<Rightarrow> string \<Rightarrow> pyval \<Rightarrow> pyval" where
  "dict_get_default d k dflt = (case map_of d (PStr k) of None \<Rightarrow> dflt | Some v \<Rightarrow> v)"

definition dict_get :: "(pyval \<times> pyval) list \<Rightarrow> string \<Rightarrow> pyval" where
  "dict_get d k = dict_get_default d k PNone"

subsection \<open>Decimal text of an integer: \<open>str(n)\<close>\<close>

definition digit_char :: "int \<Rightarrow> char" where
  "digit_char d = char_of (48 + d)"

function digits_of :: "int \<Rightarrow> string" where
  "digits_of n = (if n < 10 then [digit_char n] else digits_of (n div 10) @ [digit_char (n mod 10)])"
  by pat_completeness auto
termination
  by (relation "measure nat") auto

declare digits_of.simps [simp del]

definition str_int :: "int \<Rightarrow> string" where
  "str_int i = (if i < 0 then CHR ''-'' # digits_of (- i) else digits_of i)"

fun join_with :: "string \<Rightarrow> string list \<Rightarrow> string" where
  "join_with sep [] = []"
| "join_with sep [x] = x"
| "join_with sep (x # y # ys) = x @ sep @ join_with sep (y # ys)"

subsection \<open>The builtin \<open>int(x)\<close>\<close>

definition py_isspace :: "char \<Rightarrow> bool" where
  "py_isspace c = (of_char c \<in> set [9, 10, 11, 12, 13, 28, 29, 30, 31, 32, 133, 160 :: int])"

definition py_strip :: "string \<Rightarrow> string" where
  "py_strip s = rev (dropWhile py_isspace (rev (dropWhile py_isspace s)))"

definition is_digit :: "char \<Rightarrow> bool" where
  "is_digit c = (48 \<le> (of_char c :: int) \<and> (of_char c :: int) \<le> 57)"

definition digit_val :: "char \<Rightarrow> int" where
  "digit_val c = of_char c - 48"

text \<open>
  Digits with single underscores between them; \<open>prev\<close> says that the character before
  was a digit.
\<close>

fun parse_digits :: "string \<Rightarrow> bool \<Rightarrow> int \<Rightarrow> int option" where
  "parse_digits [] prev acc = (if prev then Some acc else None)"
| "parse_digits (c # cs) prev acc =
     (if is_digit c then parse_digits cs True (acc * 10 + digit_val c)
      else if c = CHR ''_'' \<and> prev \<and> cs \<noteq> [] \<and> is_digit (hd cs) then parse_digits cs False acc
      else None)"

text \<open>
  \<open>int\<close> of a string passes over fewer characters at both ends than \<open>str.strip\<close> removes:
  the code points 28 to 31 are whitespace for \<open>strip\<close> and an invalid literal for \<open>int\<close>.
  A literal of more than 4300 digits is refused (\<open>sys.get_int_max_str_digits()\<close>), and so
  is the text of an integer of more than 4300 digits by \<open>str\<close>.
\<close>

definition int_isspace :: "char \<Rightarrow> bool" where
  "int_isspace c = (of_char c \<in> set [9, 10, 11, 12, 13, 32, 133, 160 :: int])"

definition int_strip :: "string \<Rightarrow> string" where
  "int_strip s = rev (dropWhile int_isspace (rev (dropWhile int_isspace s)))"

definition max_str_digits :: int where
  "max_str_digits = 4300"

fun count_digits :: "string \<Rightarrow> int" where
  "count_digits [] = 0"
| "count_digits (c # cs) = (if is_digit c then 1 else 0) + count_digits cs"

definition int_of_str :: "string \<Rightarrow> py_error + int" where
  "int_of_str s =
     (case int_strip s of
        [] \<Rightarrow> Inl ValueError
      | c # cs \<Rightarrow>
          if max_str_digits < count_digits (c # cs) then Inl ValueError
          else if c = CHR ''-'' then
            (case parse_digits cs False 0 of None \<Rightarrow> Inl ValueError | Some n \<Rightarrow> Inr (- n))
          else if c = CHR ''+'' then
            (case parse_digits cs False 0 of None \<Rightarrow> Inl ValueError | Some n \<Rightarrow> Inr n)
          else
            (case parse_digits (c # cs) False 0 of None \<Rightarrow> Inl ValueError | Some n \<Rightarrow> Inr n))"

definition py_str_int :: "int \<Rightarrow> py_error + string" where
  "py_str_int n =
     (if max_str_digits < count_digits (str_int n) then Inl ValueError else Inr (str_int n))"

definition trunc_float :: "int \<Rightarrow> int \<Rightarrow> int" where
  "trunc_float m e =
     (if 0 \<le> e then m * 2 ^ nat e
      else if 0 \<le> m then m div 2 ^ nat (- e)
      else - ((- m) div 2 ^ nat (- e)))"

fun py_int :: "pyval \<Rightarrow> py_error + int" where
  "py_int (PInt n) = Inr n"
| "py_int (PBool b) = Inr (if b then 1 else 0)"
| "py_int (PFloat (Finite m e)) = Inr (trunc_float m e)"
| "py_int (PFloat PosInf) = Inl OverflowError"
| "py_int (PFloat NegInf) = Inl OverflowError"
| "py_int (PFloat NaN) = Inl ValueError"
| "py_int (PStr s) = int_of_str s"
| "py_int PNone = Inl TypeError"
| "py_int (PList xs) = Inl TypeError"
| "py_int (PDict kvs) = Inl TypeError"


subsection \<open>\<open>int(m / 2)\<close> for an integer \<open>m\<close>\<close>

text \<open>
  \<open>m / 2\<close> is true division: the quotient rounded to the nearest double (53 significant
  bits, ties to even), \<open>OverflowError\<close> when that is \<open>2 ^ 1024\<close> or more; \<open>int\<close> then cuts
  the fraction off.  Up to 53 bits the half is exact.
\<close>

fun bit_length :: "nat \<Rightarrow> nat" where
  "bit_length n = (if n = 0 then 0 else Suc (bit_length (n div 2)))"

declare bit_length.simps [simp del]

definition half_as_double :: "nat \<Rightarrow> py_error + nat" where
  "half_as_double m =
     (if bit_length m \<le> 53 then Inr (m div 2)
      else
        let s = bit_length m - 53;
            q = m div 2 ^ s;
            r = m mod 2 ^ s;
            h = 2 ^ (s - 1);
            q' = (if h < r \<or> (r = h \<and> odd q) then q + 1 else q);
            v = q' * 2 ^ (s - 1)
        in if 2 ^ 1024 \<le> v then Inl OverflowError else Inr v)"

definition int_of_half :: "int \<Rightarrow> py_error + int" where
  "int_of_half m =
     (if 0 \<le> m then (case half_as_double (nat m) of Inl e \<Rightarrow> Inl e | Inr v \<Rightarrow> Inr (int v))
      else (case half_as_double (nat (- m)) of Inl e \<Rightarrow> Inl e | Inr v \<Rightarrow> Inr (- int v)))"

section \<open>Resource translation in \<open>Agent.process_task\<close>\<close>

text \<open>
  \<open>str(int(i)) for i in gpu_indices\<close>: the first element that \<open>int\<close> rejects, or whose
  integer \<open>str\<close> refuses, raises.
\<close>

fun index_texts :: "pyval list \<Rightarrow> py_error + string list" where
  "index_texts [] = Inr []"
| "index_texts (v # vs) =
     (case py_int v of
        Inl e \<Rightarrow> Inl e
      | Inr n \<Rightarrow>
          (case py_str_int n of
             Inl e \<Rightarrow> Inl e
           | Inr x \<Rightarrow> (case index_texts vs of Inl e \<Rightarrow> Inl e | Inr xs \<Rightarrow> Inr (x # xs))))"

definition is_nonempty_list :: "pyval \<Rightarrow> bool" where
  "is_nonempty_list v = (case v of PList xs \<Rightarrow> xs \<noteq> [] | _ \<Rightarrow> False)"

definition list_items :: "pyval \<Rightarrow> pyval list" where
  "list_items v = (case v of PList xs \<Rightarrow> xs | _ \<Rightarrow> [])"

definition gpu_required_of :: "(pyval \<times> pyval) list \<Rightarrow> pyval" where
  "gpu_required_of task_data = py_or (dict_get_default task_data ''gpu_required'' (PInt 0)) (PInt 0)"

definition gpus_param :: "(pyval \<times> pyval) list \<Rightarrow> string option" where
  "gpus_param task_data =
     (let gpu_required = gpu_required_of task_data;
          gpu_indices = py_or (dict_get task_data ''gpu_enabled_indices'') (PList [])
      in if py_truthy gpu_required \<and> is_nonempty_list gpu_indices then
           (case index_texts (list_items gpu_indices) of
              Inl e \<Rightarrow> Some ''all''
            | Inr xs \<Rightarrow> Some (join_with '','' xs))
         else if py_truthy gpu_required then Some ''all''
         else None)"

text \<open>\<open>start, end = int(r[0]), int(r[1])\<close> and \<open>f"{start}-{end}"\<close>\<close>

definition range_text :: "pyval \<Rightarrow> pyval \<Rightarrow> py_error + string" where
  "range_text a b =
     (case py_int a of
        Inl e \<Rightarrow> Inl e
      | Inr start \<Rightarrow>
          (case py_int b of
             Inl e \<Rightarrow> Inl e
           | Inr end \<Rightarrow>
               (case py_str_int start of
                  Inl e \<Rightarrow> Inl e
                | Inr x \<Rightarrow> (case py_str_int end of Inl e \<Rightarrow> Inl e | Inr y \<Rightarrow> Inr (x @ ''-'' @ y)))))"

text \<open>
  The loop over \<open>cpu_allocated_ranges\<close>: an entry that is not a list of length two is
  passed over; a list of length two whose text cannot be built raises.
\<close>

fun cpu_ranges_loop :: "pyval list \<Rightarrow> string list \<Rightarrow> py_error + string list" where
  "cpu_ranges_loop [] ranges = Inr ranges"
| "cpu_ranges_loop (r # rs) ranges =
     (case r of
        PList [a, b] \<Rightarrow>
          (case range_text a b of
             Inl e \<Rightarrow> Inl e
           | Inr x \<Rightarrow> cpu_ranges_loop rs (ranges @ [x]))
      | _ \<Rightarrow> cpu_ranges_loop rs ranges)"

definition cpuset_cpus :: "(pyval \<times> pyval) list \<Rightarrow> string option" where
  "cpuset_cpus task_data =
     (let cpu_allocated_ranges = py_or (dict_get task_data ''cpu_allocated_ranges'') (PList [])
      in if is_nonempty_list cpu_allocated_ranges then
           (case cpu_ranges_loop (list_items cpu_allocated_ranges) [] of
              Inl e \<Rightarrow> None
            | Inr ranges \<Rightarrow> (if ranges \<noteq> [] then Some (join_with '','' ranges) else None))
         else None)"

text \<open>\<open>int(v) if v is not None else None\<close>, with every exception turned into \<open>None\<close>.\<close>

definition int_or_none :: "pyval \<Rightarrow> int option" where
  "int_or_none v =
     (if v = PNone then None else (case py_int v of Inl e \<Rightarrow> None | Inr n \<Rightarrow> Some n))"

definition memory_gb :: "(pyval \<times> pyval) list \<Rightarrow> int option" where
  "memory_gb task_data = int_or_none (dict_get task_data ''ram_allocated_gb'')"

definition storage_gb :: "(pyval \<times> pyval) list \<Rightarrow> int option" where
  "storage_gb task_data = int_or_none (dict_get task_data ''storage_allocated_gb'')"

definition shm_size_of :: "int option \<Rightarrow> int option" where
  "shm_size_of mem =
     (case mem of
        None \<Rightarrow> None
      | Some m \<Rightarrow>
          if 0 < m then (case int_of_half m of Inl e \<Rightarrow> None | Inr h \<Rightarrow> Some (max 1 h))
          else None)"

definition shm_size_gb :: "(pyval \<times> pyval) list \<Rightarrow> int option" where
  "shm_size_gb task_data = shm_size_of (memory_gb task_data)"

section \<open>The container manager (\<open>clean_manager.py\<close>)\<close>

subsection \<open>The host: container engine, sockets, clock\<close>

text \<open>
  The manager reaches the container engine through \<open>subprocess.run\<close> only.  The engine
  is a parameter: \<open>engine H h args\<close> is what running \<open>args\<close> gives after the commands
  \<open>h\<close> were run, either a completed process (return code, stdout, stderr) or an exception
  of \<open>subprocess.run\<close> itself.  \<open>port_bound H p\<close> says that binding \<open>127.0.0.1:p\<close> raises
  \<open>OSError\<close>.  \<open>clock H\<close> is \<open>int(time.time())\<close>, and \<open>repr_other H\<close> the text that \<open>str\<close>
  gives a float, a list or a dictionary.
\<close>

type_synonym cmd = "string list"

datatype proc = Completed int string string | Raised py_error

record settings =
  image :: string
  name_prefix :: string
  ssh_port_base :: int
  jup_port_base :: int
  shm_size :: string
  ulimit_stack :: string
  runtime :: string
  nvidia_caps :: string

definition Settings :: settings where
  "Settings = \<lparr> image = ''grigoriybased/gpunix-pytorch:latest'', name_prefix = ''jsg'',
     ssh_port_base = 42200, jup_port_base = 42800, shm_size = ''1g'',
     ulimit_stack = ''67108864'', runtime = ''nvidia'', nvidia_caps = ''compute,utility'' \<rparr>"

record host =
  cfg :: settings
  engine :: "cmd list \<Rightarrow> cmd \<Rightarrow> proc"
  port_bound :: "int \<Rightarrow> bool"
  clock :: int
  repr_other :: "pyval \<Rightarrow> string"

text \<open>\<open>str(v)\<close>, as an f-string formats \<open>v\<close>.\<close>

definition py_str :: "host \<Rightarrow> pyval \<Rightarrow> string" where
  "py_str H v =
     (case v of
        PStr x \<Rightarrow> x
      | PInt n \<Rightarrow> str_int n
      | PBool b \<Rightarrow> (if b then ''True'' else ''False'')
      | PNone \<Rightarrow> ''None''
      | _ \<Rightarrow> repr_other H v)"

text \<open>
  A result together with the commands run so far; \<open>bind_r\<close> runs the next step unless the
  step before raised.
\<close>

type_synonym 'a outcome = "(py_error + 'a) \<times> cmd list"

definition bind_r :: "'a outcome \<Rightarrow> ('a \<Rightarrow> cmd list \<Rightarrow> 'b outcome) \<Rightarrow> 'b outcome" where
  "bind_r m f = (case m of (Inl e, h) \<Rightarrow> (Inl e, h) | (Inr x, h) \<Rightarrow> f x h)"

fun strs_of :: "pyval list \<Rightarrow> string list option" where
  "strs_of [] = Some []"
| "strs_of (PStr x # vs) = (case strs_of vs of None \<Rightarrow> None | Some xs \<Rightarrow> Some (x # xs))"
| "strs_of (v # vs) = None"

text \<open>
  \<open>_run\<close>: an argument that is not a string makes \<open>subprocess.run\<close> raise \<open>TypeError\<close>
  before anything runs; with \<open>check\<close> a non-zero return code raises.
\<close>

definition run :: "host \<Rightarrow> cmd list \<Rightarrow> pyval list \<Rightarrow> bool \<Rightarrow> (int \<times> string \<times> string) outcome" where
  "run H h args check =
     (case strs_of args of
        None \<Rightarrow> (Inl TypeError, h)
      | Some a \<Rightarrow>
          (case engine H h a of
             Raised e \<Rightarrow> (Inl e, h @ [a])
           | Completed rc out err \<Rightarrow>
               if check \<and> rc \<noteq> 0 then (Inl (CalledProcessError rc), h @ [a])
               else (Inr (rc, out, err), h @ [a])))"

definition is_linebreak :: "char \<Rightarrow> bool" where
  "is_linebreak c = (of_char c \<in> set [10, 11, 12, 13, 28, 29, 30, 133 :: int])"

fun splitlines_from :: "string \<Rightarrow> string \<Rightarrow> string list" where
  "splitlines_from [] cur = (if cur = [] then [] else [cur])"
| "splitlines_from [c] cur = (if is_linebreak c then [cur] else [cur @ [c]])"
| "splitlines_from (c # d # cs) cur =
     (if c = CHR 0x0D \<and> d = CHR 0x0A then cur # splitlines_from cs []
      else if is_linebreak c then cur # splitlines_from (d # cs) []
      else splitlines_from (d # cs) (cur @ [c]))"

definition splitlines :: "string \<Rightarrow> string list" where
  "splitlines x = splitlines_from x []"

definition running :: "host \<Rightarrow> cmd list \<Rightarrow> string \<Rightarrow> bool outcome" where
  "running H h name =
     bind_r (run H h [PStr ''docker'', PStr ''ps'', PStr ''--format'', PStr ''{{.Names}}''] True)
       (\<lambda>(rc, out, err) h'. (Inr (name \<in> set (splitlines out)), h'))"

definition exists_container :: "host \<Rightarrow> cmd list \<Rightarrow> string \<Rightarrow> bool outcome" where
  "exists_container H h name =
     bind_r (run H h [PStr ''docker'', PStr ''ps'', PStr ''-a'', PStr ''--format'', PStr ''{{.Names}}''] True)
       (\<lambda>(rc, out, err) h'. (Inr (name \<in> set (splitlines out)), h'))"

text \<open>
  \<open>_docker_images_has\<close>: the inspection may raise; the pull that follows a failed
  inspection is inside a \<open>try\<close> and gives \<open>False\<close> when it raises.
\<close>

definition docker_images_has :: "host \<Rightarrow> cmd list \<Rightarrow> pyval \<Rightarrow> bool outcome" where
  "docker_images_has H h img =
     bind_r (run H h [PStr ''docker'', PStr ''image'', PStr ''inspect'', img] False)
       (\<lambda>(rc, out, err) h'.
          if rc = 0 then (Inr True, h')
          else (case run H h' [PStr ''docker'', PStr ''pull'', img] False of
                  (Inl e, h'') \<Rightarrow> (Inr False, h'')
                | (Inr (rc', out', err'), h'') \<Rightarrow> (Inr (rc' = 0), h'')))"

text \<open>
  \<open>_port_free\<close>: \<open>bind\<close> takes an integer from 0 to 65535 (\<open>OverflowError\<close> outside,
  \<open>TypeError\<close> for a value that is not an integer); only \<open>OSError\<close> is caught.
\<close>

definition port_free :: "host \<Rightarrow> pyval \<Rightarrow> py_error + bool" where
  "port_free H port =
     (case port of
        PInt p \<Rightarrow> if 0 \<le> p \<and> p \<le> 65535 then Inr (\<not> port_bound H p) else Inl OverflowError
      | PBool b \<Rightarrow> Inr (\<not> port_bound H (if b then 1 else 0))
      | _ \<Rightarrow> Inl TypeError)"

definition assert_ports_free :: "host \<Rightarrow> pyval \<Rightarrow> pyval \<Rightarrow> py_error + unit" where
  "assert_ports_free H ssh_port jup_port =
     (case port_free H ssh_port of
        Inl e \<Rightarrow> Inl e
      | Inr free1 \<Rightarrow>
          (case port_free H jup_port of
             Inl e \<Rightarrow> Inl e
           | Inr free2 \<Rightarrow>
               (let bad = (if free1 then [] else [py_str H ssh_port]) @
                          (if free2 then [] else [py_str H jup_port])
                in if bad \<noteq> [] then Inl (PortsBusy bad) else Inr ())))"

fun port_mapping_loop :: "host \<Rightarrow> pyval list \<Rightarrow> string list \<Rightarrow> py_error + string list" where
  "port_mapping_loop H [] bad = Inr bad"
| "port_mapping_loop H (host_port # ks) bad =
     (case py_int host_port of
        Inl e \<Rightarrow> Inl e
      | Inr p \<Rightarrow>
          (case port_free H (PInt p) of
             Inl e \<Rightarrow> Inl e
           | Inr free \<Rightarrow> port_mapping_loop H ks (if free then bad else bad @ [py_str H host_port])))"

definition assert_port_mapping_free :: "host \<Rightarrow> (pyval \<times> pyval) list \<Rightarrow> py_error + unit" where
  "assert_port_mapping_free H port_mapping =
     (case port_mapping_loop H (map fst port_mapping) [] of
        Inl e \<Rightarrow> Inl e
      | Inr bad \<Rightarrow> if bad \<noteq> [] then Inl (PortsBusy bad) else Inr ())"

subsection \<open>Launching\<close>

record launch =
  gpus :: "string option"
  image_arg :: pyval
  cpuset :: "string option"
  mem_gb :: "int option"
  mem_swap_gb :: "int option"
  shm_gb :: "int option"
  stor_gb :: "int option"
  ssh_password :: pyval
  jupyter_token :: pyval

text \<open>\<open>image or self.s.image\<close>.\<close>

definition image_to_run :: "host \<Rightarrow> launch \<Rightarrow> pyval" where
  "image_to_run H L = py_or (image_arg L) (PStr (image (cfg H)))"

text \<open>
  The argument list of \<open>docker run\<close>; \<open>start\<close> and \<open>start_with_port_mapping\<close> build the
  same list around their own \<open>-p\<close> arguments.
\<close>

definition docker_run_args :: "host \<Rightarrow> string \<Rightarrow> string list \<Rightarrow> launch \<Rightarrow> pyval list" where
  "docker_run_args H name ports L =
     map PStr
       ([''docker'', ''run'', ''-d'', ''--name'', name, ''--runtime'', runtime (cfg H),
         ''--ulimit'', ''memlock=-1'', ''--ulimit'', ''stack='' @ ulimit_stack (cfg H),
         ''--shm-size'', (case shm_gb L of Some g \<Rightarrow> str_int g @ ''g'' | None \<Rightarrow> shm_size (cfg H))]
        @ ports
        @ [''-e'', ''SSH_PASSWORD='' @ py_str H (ssh_password L),
           ''-e'', ''JUPYTER_TOKEN='' @ py_str H (jupyter_token L),
           ''-e'', ''NVIDIA_DRIVER_CAPABILITIES='' @ nvidia_caps (cfg H),
           ''-e'', ''NVIDIA_VISIBLE_DEVICES='' @
              (case gpus L of None \<Rightarrow> ''all'' | Some g \<Rightarrow> if g = [] then ''all'' else g),
           ''-v'', name @ ''-work:/work'', ''--restart'', ''unless-stopped'']
        @ (case cpuset L of None \<Rightarrow> [] | Some c \<Rightarrow> if c = [] then [] else [''--cpuset-cpus'', c])
        @ (case mem_gb L of
             None \<Rightarrow> []
           | Some m \<Rightarrow>
               [''--memory'', str_int m @ ''g'', ''--memory-swap'',
                str_int (case mem_swap_gb L of None \<Rightarrow> m | Some sw \<Rightarrow> sw) @ ''g''])
        @ (case stor_gb L of
             None \<Rightarrow> []
           | Some g \<Rightarrow> if 0 < g then [''--storage-opt'', ''size='' @ str_int g @ ''G''] else []))
     @ [image_to_run H L]"

text \<open>
  What follows the two listings when the container neither runs nor exists: the image,
  the volume, \<open>docker run\<close>; the identifier is the stripped stdout.
\<close>

definition create_and_run :: "host \<Rightarrow> cmd list \<Rightarrow> string \<Rightarrow> string list \<Rightarrow> launch \<Rightarrow> string option outcome" where
  "create_and_run H h name ports L =
     bind_r (docker_images_has H h (image_to_run H L))
       (\<lambda>has h1.
          if \<not> has then (Inl (ImageUnavailable (image_to_run H L)), h1)
          else
            bind_r (run H h1 [PStr ''docker'', PStr ''volume'', PStr ''create'', PStr (name @ ''-work'')] True)
              (\<lambda>_ h2.
                 bind_r (run H h2 (docker_run_args H name ports L) True)
                   (\<lambda>(rc, out, err) h3. (Inr (Some (py_strip out)), h3))))"

definition start :: "host \<Rightarrow> cmd list \<Rightarrow> string \<Rightarrow> pyval \<Rightarrow> pyval \<Rightarrow> launch \<Rightarrow> string option outcome" where
  "start H h name ssh_port jup_port L =
     bind_r (running H h name)
       (\<lambda>is_running h1.
          if is_running then (Inr None, h1)
          else
            bind_r (exists_container H h1 name)
              (\<lambda>ex h2.
                 if ex then
                   bind_r (run H h2 [PStr ''docker'', PStr ''start'', PStr name] True)
                     (\<lambda>_ h3. (Inr None, h3))
                 else
                   (case assert_ports_free H ssh_port jup_port of
                      Inl e \<Rightarrow> (Inl e, h2)
                    | Inr _ \<Rightarrow>
                        create_and_run H h2 name
                          [''-p'', py_str H ssh_port @ '':22'', ''-p'', py_str H jup_port @ '':8888''] L)))"

definition port_args :: "host \<Rightarrow> (pyval \<times> pyval) list \<Rightarrow> string list" where
  "port_args H port_mapping =
     concat (map (\<lambda>(host_port, container_port).
                    [''-p'', py_str H host_port @ '':'' @ py_str H container_port]) port_mapping)"

definition start_with_port_mapping ::
  "host \<Rightarrow> cmd list \<Rightarrow> string \<Rightarrow> (pyval \<times> pyval) list \<Rightarrow> launch \<Rightarrow> string option outcome" where
  "start_with_port_mapping H h name port_mapping L =
     bind_r (running H h name)
       (\<lambda>is_running h1.
          if is_running then (Inr None, h1)
          else
            bind_r (exists_container H h1 name)
              (\<lambda>ex h2.
                 if ex then
                   bind_r (run H h2 [PStr ''docker'', PStr ''start'', PStr name] True)
                     (\<lambda>_ h3. (Inr None, h3))
                 else
                   (case assert_port_mapping_free H port_mapping of
                      Inl e \<Rightarrow> (Inl e, h2)
                    | Inr _ \<Rightarrow> create_and_run H h2 name (port_args H port_mapping) L)))"

subsection \<open>Stopping and removing by identifier\<close>

fun contains :: "string \<Rightarrow> string \<Rightarrow> bool" where
  "contains needle [] = (needle = [])"
| "contains needle (c # cs) = (take (length needle) (c # cs) = needle \<or> contains needle cs)"

definition stop_by_id :: "host \<Rightarrow> cmd list \<Rightarrow> pyval \<Rightarrow> bool \<times> cmd list" where
  "stop_by_id H h container_id =
     (case run H h [PStr ''docker'', PStr ''stop'', container_id] False of
        (Inl e, h') \<Rightarrow> (False, h')
      | (Inr (rc, out, err), h') \<Rightarrow>
          (if rc = 0 then True
           else if contains ''No such container'' (err @ out) \<or> contains ''is not running'' (err @ out)
           then True
           else False, h'))"

definition remove_by_id :: "host \<Rightarrow> cmd list \<Rightarrow> pyval \<Rightarrow> bool \<times> cmd list" where
  "remove_by_id H h container_id =
     (case run H h [PStr ''docker'', PStr ''rm'', container_id] False of
        (Inl e, h') \<Rightarrow> (False, h')
      | (Inr (rc, out, err), h') \<Rightarrow>
          (if rc = 0 then True
           else if contains ''No such container'' (err @ out) then True
           else False, h'))"

section \<open>The task processor (\<open>Agent.process_task\<close>)\<close>

text \<open>\<open>x.get(...)\<close> exists on a dictionary only; elsewhere it raises \<open>AttributeError\<close>.\<close>

definition as_dict :: "pyval \<Rightarrow> py_error + (pyval \<times> pyval) list" where
  "as_dict v = (case v of PDict d \<Rightarrow> Inr d | _ \<Rightarrow> Inl AttributeError)"

text \<open>\<open>v == k\<close> for an integer \<open>k\<close>.\<close>

definition py_eq_int :: "pyval \<Rightarrow> int \<Rightarrow> bool" where
  "py_eq_int v k =
     (case v of
        PInt n \<Rightarrow> n = k
      | PBool b \<Rightarrow> (if b then 1 else 0) = k
      | PFloat f \<Rightarrow>
          (case f of
             Finite m e \<Rightarrow> (if 0 \<le> e then m * 2 ^ nat e = k else m = k * 2 ^ nat (- e))
           | _ \<Rightarrow> False)
      | _ \<Rightarrow> False)"

definition py_lower_char :: "char \<Rightarrow> char" where
  "py_lower_char c =
     (let n = (of_char c :: int)
      in if (65 \<le> n \<and> n \<le> 90) \<or> (192 \<le> n \<and> n \<le> 222 \<and> n \<noteq> 215) then char_of (n + 32) else c)"

definition py_lower :: "string \<Rightarrow> string" where
  "py_lower x = map py_lower_char x"

text \<open>\<open>(task_data.get('operation') or '').strip().lower()\<close>\<close>

definition operation_of :: "(pyval \<times> pyval) list \<Rightarrow> py_error + string" where
  "operation_of task_data =
     (case py_or (dict_get task_data ''operation'') (PStr []) of
        PStr x \<Rightarrow> Inr (py_lower (py_strip x))
      | _ \<Rightarrow> Inl AttributeError)"

text \<open>
  \<open>task_data.get(k) or container_info.get(k)\<close>: the second dictionary is looked at only
  when the first gives a falsy value.
\<close>

definition get_or_get :: "(pyval \<times> pyval) list \<Rightarrow> pyval \<Rightarrow> string \<Rightarrow> py_error + pyval" where
  "get_or_get task_data container_info k =
     (if py_truthy (dict_get task_data k) then Inr (dict_get task_data k)
      else (case as_dict container_info of Inl e \<Rightarrow> Inl e | Inr ci \<Rightarrow> Inr (dict_get ci k)))"

definition control_task ::
  "host \<Rightarrow> cmd list \<Rightarrow> string \<Rightarrow> (pyval \<times> pyval) list \<Rightarrow> pyval \<Rightarrow> pyval outcome" where
  "control_task H h operation task_data container_info =
     (case get_or_get task_data container_info ''container_id'' of
        Inl e \<Rightarrow> (Inl e, h)
      | Inr container_id \<Rightarrow>
          (case get_or_get task_data container_info ''container_name'' of
             Inl e \<Rightarrow> (Inl e, h)
           | Inr container_name \<Rightarrow>
               if \<not> py_truthy container_id then
                 (Inr (PDict [(PStr ''status'', PStr ''failed''),
                              (PStr ''container_id'', PStr []),
                              (PStr ''container_name'', container_name),
                              (PStr ''error_message'', PStr ''Missing container_id in control task'')]), h)
               else
                 (let (stop_ok, h1) = stop_by_id H h container_id;
                      (remove_ok, h2) = (if operation = ''stop_remove'' then remove_by_id H h1 container_id
                                         else (True, h1))
                  in if stop_ok \<and> remove_ok then
                       (Inr (PDict [(PStr ''status'', PStr ''completed''),
                                    (PStr ''container_id'', container_id),
                                    (PStr ''container_name'', container_name)]), h2)
                     else
                       (let err = (if stop_ok then [] else [''stop failed'']) @
                                  (if operation = ''stop_remove'' \<and> \<not> remove_ok then [''remove failed'']
                                   else []);
                            msg = join_with '', '' err
                        in (Inr (PDict [(PStr ''status'', PStr ''failed''),
                                        (PStr ''container_id'', container_id),
                                        (PStr ''container_name'', container_name),
                                        (PStr ''error_message'',
                                           PStr (if msg = [] then ''unknown error'' else msg))]), h2)))))"

definition opt_str :: "string option \<Rightarrow> pyval" where
  "opt_str x = (case x of None \<Rightarrow> PNone | Some v \<Rightarrow> PStr v)"

definition opt_int :: "int option \<Rightarrow> pyval" where
  "opt_int x = (case x of None \<Rightarrow> PNone | Some v \<Rightarrow> PInt v)"

definition launch_of :: "(pyval \<times> pyval) list \<Rightarrow> pyval \<Rightarrow> pyval \<Rightarrow> launch" where
  "launch_of task_data docker_image password =
     \<lparr> gpus = gpus_param task_data, image_arg = docker_image, cpuset = cpuset_cpus task_data,
       mem_gb = memory_gb task_data, mem_swap_gb = memory_gb task_data,
       shm_gb = shm_size_gb task_data, stor_gb = storage_gb task_data,
       ssh_password = password, jupyter_token = password \<rparr>"

definition allocated_resources :: "(pyval \<times> pyval) list \<Rightarrow> pyval" where
  "allocated_resources task_data =
     PDict [(PStr ''cpu_cpuset'', opt_str (cpuset_cpus task_data)),
            (PStr ''ram_gb'', opt_int (memory_gb task_data)),
            (PStr ''gpu_count'', gpu_required_of task_data),
            (PStr ''gpu_devices'', opt_str (gpus_param task_data)),
            (PStr ''storage_gb'', opt_int (storage_gb task_data)),
            (PStr ''gpu_support'',
               PBool (case gpus_param task_data of None \<Rightarrow> False | Some g \<Rightarrow> g \<noteq> []))]"

text \<open>\<open>f"task_{task_id}"\<close> with \<open>task_id = task.get('id', int(time.time()))\<close>\<close>

definition container_name_of :: "host \<Rightarrow> (pyval \<times> pyval) list \<Rightarrow> string" where
  "container_name_of H task = ''task_'' @ py_str H (dict_get_default task ''id'' (PInt (clock H)))"

text \<open>The first host port whose container port equals 22.\<close>

fun ssh_port_result :: "(pyval \<times> pyval) list \<Rightarrow> pyval" where
  "ssh_port_result [] = PNone"
| "ssh_port_result ((host_port, container_port) # rest) =
     (if py_eq_int container_port 22 then host_port else ssh_port_result rest)"

definition provision_mapped ::
  "host \<Rightarrow> cmd list \<Rightarrow> (pyval \<times> pyval) list \<Rightarrow> (pyval \<times> pyval) list \<Rightarrow> (pyval \<times> pyval) list \<Rightarrow>
   (pyval \<times> pyval) list \<Rightarrow> pyval outcome" where
  "provision_mapped H h task task_data ci port_mapping =
     (let ssh_username = py_or (dict_get ci ''ssh_username'') (PStr ''root'');
          password = dict_get ci ''ssh_password'';
          ssh_host = dict_get ci ''ssh_host''
      in if \<not> py_truthy password then (Inr PNone, h)
         else
           bind_r (start_with_port_mapping H h (container_name_of H task) port_mapping
                     (launch_of task_data (dict_get task_data ''docker_image'') password))
             (\<lambda>container_id h'.
                (Inr (PDict
                   [(PStr ''container_id'', opt_str container_id),
                    (PStr ''container_name'', PStr (container_name_of H task)),
                    (PStr ''ssh_port'', ssh_port_result port_mapping),
                    (PStr ''ssh_host'', ssh_host),
                    (PStr ''ssh_command'',
                       (if py_truthy (ssh_port_result port_mapping) then
                          dict_get_default ci ''ssh_command''
                            (PStr (''ssh root@'' @ py_str H ssh_host @ '' -p '' @
                                   py_str H (ssh_port_result port_mapping)))
                        else PNone)),
                    (PStr ''ssh_username'', ssh_username),
                    (PStr ''ssh_password'', password),
                    (PStr ''port_mapping'', PDict port_mapping),
                    (PStr ''status'', PStr ''running''),
                    (PStr ''allocated_resources'', allocated_resources task_data)]), h')))"

text \<open>\<open>ssh_port + 1\<close>; the sum of a float is passed on to the bind test only, which rejects it.\<close>

definition py_add1 :: "pyval \<Rightarrow> py_error + pyval" where
  "py_add1 v =
     (case v of
        PInt n \<Rightarrow> Inr (PInt (n + 1))
      | PBool b \<Rightarrow> Inr (PInt ((if b then 1 else 0) + 1))
      | PFloat f \<Rightarrow>
          (case f of
             Finite m e \<Rightarrow>
               Inr (PFloat (if 0 \<le> e then Finite (m * 2 ^ nat e + 1) 0 else Finite (m + 2 ^ nat (- e)) e))
           | _ \<Rightarrow> Inr (PFloat f))
      | _ \<Rightarrow> Inl TypeError)"

definition provision_legacy ::
  "host \<Rightarrow> cmd list \<Rightarrow> (pyval \<times> pyval) list \<Rightarrow> (pyval \<times> pyval) list \<Rightarrow> (pyval \<times> pyval) list \<Rightarrow>
   pyval outcome" where
  "provision_legacy H h task task_data ci =
     (let ssh_username = py_or (dict_get ci ''ssh_username'') (PStr ''root'');
          password = dict_get ci ''ssh_password'';
          ssh_port = dict_get ci ''ssh_port'';
          ssh_host = dict_get ci ''ssh_host'';
          gpus_allocated = dict_get_default task_data ''gpus_allocated'' (PDict [])
      in if \<not> (py_truthy password \<and> py_truthy ssh_port) then (Inr PNone, h)
         else
           (case (if py_truthy gpus_allocated then as_dict gpus_allocated else Inr []) of
              Inl e \<Rightarrow> (Inl e, h)
            | Inr _ \<Rightarrow>
                (case py_add1 ssh_port of
                   Inl e \<Rightarrow> (Inl e, h)
                 | Inr jup_port \<Rightarrow>
                     bind_r (start H h (container_name_of H task) ssh_port jup_port
                               (launch_of task_data (dict_get task_data ''docker_image'') password))
                       (\<lambda>container_id h'.
                          (Inr (PDict
                             [(PStr ''container_id'', opt_str container_id),
                              (PStr ''container_name'', PStr (container_name_of H task)),
                              (PStr ''ssh_port'', ssh_port),
                              (PStr ''ssh_host'', ssh_host),
                              (PStr ''ssh_command'',
                                 dict_get_default ci ''ssh_command''
                                   (PStr (''ssh root@'' @ py_str H ssh_host @ '' -p '' @ py_str H ssh_port))),
                              (PStr ''ssh_username'', ssh_username),
                              (PStr ''ssh_password'', password),
                              (PStr ''status'', PStr ''running''),
                              (PStr ''allocated_resources'', allocated_resources task_data)]), h')))))"

text \<open>\<open>port_mapping and isinstance(port_mapping, dict)\<close>\<close>

definition is_port_mapping :: "pyval \<Rightarrow> bool" where
  "is_port_mapping v = (case v of PDict d \<Rightarrow> d \<noteq> [] | _ \<Rightarrow> False)"

definition dict_items :: "pyval \<Rightarrow> (pyval \<times> pyval) list" where
  "dict_items v = (case v of PDict d \<Rightarrow> d | _ \<Rightarrow> [])"

definition provision ::
  "host \<Rightarrow> cmd list \<Rightarrow> (pyval \<times> pyval) list \<Rightarrow> (pyval \<times> pyval) list \<Rightarrow> pyval \<Rightarrow> pyval outcome" where
  "provision H h task task_data container_info =
     (if \<not> py_truthy (dict_get task_data ''docker_image'') then (Inr PNone, h)
      else
        (case as_dict container_info of
           Inl e \<Rightarrow> (Inl e, h)
         | Inr ci \<Rightarrow>
             if is_port_mapping (dict_get ci ''port_mapping'') then
               provision_mapped H h task task_data ci (dict_items (dict_get ci ''port_mapping''))
             else provision_legacy H h task task_data ci))"

text \<open>The body of the \<open>try\<close> block: a value (\<open>None\<close> or a dictionary), or the exception raised.\<close>

definition process_task_body :: "host \<Rightarrow> cmd list \<Rightarrow> pyval \<Rightarrow> pyval outcome" where
  "process_task_body H h task =
     (case as_dict task of
        Inl e \<Rightarrow> (Inl e, h)
      | Inr t \<Rightarrow>
          (case as_dict (dict_get_default t ''task_data'' (PDict [])) of
             Inl e \<Rightarrow> (Inl e, h)
           | Inr task_data \<Rightarrow>
               (case operation_of task_data of
                  Inl e \<Rightarrow> (Inl e, h)
                | Inr operation \<Rightarrow>
                    if operation = ''stop'' \<or> operation = ''stop_remove'' then
                      control_task H h operation task_data (dict_get_default t ''container_info'' (PDict []))
                    else provision H h t task_data (dict_get_default t ''container_info'' (PDict [])))))"

text \<open>\<open>except Exception: ... return None\<close>\<close>

definition process_task :: "host \<Rightarrow> cmd list \<Rightarrow> pyval \<Rightarrow> pyval \<times> cmd list" where
  "process_task H h task =
     (case process_task_body H h task of (Inl e, h') \<Rightarrow> (PNone, h') | (Inr r, h') \<Rightarrow> (r, h'))"

section \<open>The polling loop (\<open>APIClient.poll_for_tasks\<close>)\<close>

text \<open>
  What one \<open>session.post\<close> of the loop gives: an exception, or a response with its status
  code and what \<open>response.json()\<close> gives.  A cycle is described by the error counter after
  it, the seconds slept at its end and the calls of \<open>send_task_status\<close> it made, each
  with the boolean it returned.  \<open>send_task_status\<close> itself is a parameter: it posts to the
  control plane and returns whether that went well.
\<close>

datatype pull = Timeout | ConnectionError | RequestError | Response int "py_error + pyval"

record cycle =
  counter :: int
  wait :: int
  reports :: "(pyval \<times> pyval \<times> bool) list"

definition max_consecutive_errors :: int where
  "max_consecutive_errors = 5"

definition backoff_wait :: "int \<Rightarrow> int" where
  "backoff_wait c = (if max_consecutive_errors \<le> c then 60 else 10)"

definition error_cycle :: "int \<Rightarrow> cycle" where
  "error_cycle c = \<lparr> counter = c + 1, wait = backoff_wait (c + 1), reports = [] \<rparr>"

definition clean_cycle :: "(pyval \<times> pyval \<times> bool) list \<Rightarrow> cycle" where
  "clean_cycle rs = \<lparr> counter = 0, wait = backoff_wait 0, reports = rs \<rparr>"

text \<open>
  A task was pulled: the callback runs, and \<open>send_task_status\<close> is called when its result
  is truthy; that call raises on a result that is not a dictionary and otherwise returns
  a boolean that the loop does not look at.
\<close>

definition dispatch ::
  "(pyval \<Rightarrow> pyval \<Rightarrow> bool) \<Rightarrow> ('st \<Rightarrow> pyval \<Rightarrow> (py_error + pyval) \<times> 'st) \<Rightarrow> 'st \<Rightarrow> int \<Rightarrow>
   pyval \<Rightarrow> pyval \<Rightarrow> pyval \<Rightarrow> cycle \<times> 'st" where
  "dispatch send_task_status callback st c task_id task_data container_info =
     (case as_dict task_data of
        Inl e \<Rightarrow> (error_cycle c, st)
      | Inr _ \<Rightarrow>
          (case as_dict container_info of
             Inl e \<Rightarrow> (error_cycle c, st)
           | Inr _ \<Rightarrow>
               (case callback st (PDict [(PStr ''id'', task_id), (PStr ''task_data'', task_data),
                                         (PStr ''container_info'', container_info)]) of
                  (Inl e, st') \<Rightarrow> (error_cycle c, st')
                | (Inr result, st') \<Rightarrow>
                    if py_truthy result then
                      (case as_dict result of
                         Inl e \<Rightarrow> (error_cycle c, st')
                       | Inr _ \<Rightarrow> (clean_cycle [(task_id, result, send_task_status task_id result)], st'))
                    else (error_cycle c, st'))))"

definition poll_cycle ::
  "(pyval \<Rightarrow> pyval \<Rightarrow> bool) \<Rightarrow> ('st \<Rightarrow> pyval \<Rightarrow> (py_error + pyval) \<times> 'st) \<Rightarrow> 'st \<Rightarrow> int \<Rightarrow>
   pull \<Rightarrow> cycle \<times> 'st" where
  "poll_cycle send_task_status callback st c p =
     (case p of
        Response status body \<Rightarrow>
          if status = 200 then
            (case body of
               Inl e \<Rightarrow> (error_cycle c, st)
             | Inr j \<Rightarrow>
                 (case as_dict j of
                    Inl e \<Rightarrow> (error_cycle c, st)
                  | Inr resp_json \<Rightarrow>
                      if \<not> py_eq_int (dict_get resp_json ''exception'') 0 then
                        (\<lparr> counter = c + 1, wait = 10, reports = [] \<rparr>, st)
                      else
                        (case as_dict (dict_get_default resp_json ''data'' (PDict [])) of
                           Inl e \<Rightarrow> (error_cycle c, st)
                         | Inr data \<Rightarrow>
                             if dict_get data ''task_id'' \<noteq> PNone \<and> dict_get data ''task_data'' \<noteq> PNone
                                \<and> dict_get data ''container_info'' \<noteq> PNone
                             then dispatch send_task_status callback st c (dict_get data ''task_id'')
                                    (dict_get data ''task_data'') (dict_get data ''container_info'')
                             else if dict_get data ''task_id'' = PNone then (clean_cycle [], st)
                             else (error_cycle c, st))))
          else (error_cycle c, st)
      | _ \<Rightarrow> (error_cycle c, st))"

text \<open>The first cycles of the endless loop, one for each answer of the control plane.\<close>

fun poll_from ::
  "(pyval \<Rightarrow> pyval \<Rightarrow> bool) \<Rightarrow> ('st \<Rightarrow> pyval \<Rightarrow> (py_error + pyval) \<times> 'st) \<Rightarrow> 'st \<Rightarrow> int \<Rightarrow>
   pull list \<Rightarrow> cycle list" where
  "poll_from send_task_status callback st c [] = []"
| "poll_from send_task_status callback st c (p # ps) =
     (case poll_cycle send_task_status callback st c p of
        (cy, st') \<Rightarrow> cy # poll_from send_task_status callback st' (counter cy) ps)"

definition poll_for_tasks ::
  "pyval \<Rightarrow> (pyval \<Rightarrow> pyval \<Rightarrow> bool) \<Rightarrow> ('st \<Rightarrow> pyval \<Rightarrow> (py_error + pyval) \<times> 'st) \<Rightarrow> 'st \<Rightarrow>
   pull list \<Rightarrow> cycle list" where
  "poll_for_tasks agent_id send_task_status callback st ps =
     (if \<not> py_truthy agent_id then [] else poll_from send_task_status callback st 0 ps)"

text \<open>The agent polls with \<open>process_task\<close> as the callback.\<close>

definition agent_callback :: "host \<Rightarrow> cmd list \<Rightarrow> pyval \<Rightarrow> (py_error + pyval) \<times> cmd list" where
  "agent_callback H h task = (case process_task H h task of (r, h') \<Rightarrow> (Inr r, h'))"

section \<open>A simulated host for the examples\<close>

text \<open>
  An engine that keeps what \<open>docker run\<close> created: both listings print the names given
  to \<open>--name\<close> so far, \<open>docker run\<close> prints an identifier, \<open>docker stop\<close> and \<open>docker rm\<close> do
  not find their container, every other command succeeds silently.  Port 8080 is bound.
\<close>

definition launched :: "cmd list \<Rightarrow> string list" where
  "launched h = map (\<lambda>c. c ! 4) (filter (\<lambda>c. take 2 c = [''docker'', ''run'']) h)"

definition demo_engine :: "cmd list \<Rightarrow> cmd \<Rightarrow> proc" where
  "demo_engine h c =
     (if take 2 c = [''docker'', ''ps''] then
        Completed 0 (concat (map (\<lambda>n. n @ [CHR 0x0A]) (launched h))) []
      else if take 2 c = [''docker'', ''run''] then Completed 0 (''c0ffee'' @ [CHR 0x0A]) []
      else if take 2 c = [''docker'', ''stop''] \<or> take 2 c = [''docker'', ''rm''] then
        Completed 1 [] ''Error response from daemon: No such container''
      else Completed 0 [] [])"

definition demo_host :: host where
  "demo_host = \<lparr> cfg = Settings, engine = demo_engine, port_bound = (\<lambda>p. p = 8080), clock = 0,
     repr_other = (\<lambda>v. ''?'') \<rparr>"

text \<open>An engine that answers every command with exit code 1 and a "not running" message.\<close>

definition not_running_host :: host where
  "not_running_host = \<lparr> cfg = Settings,
     engine = (\<lambda>h c. Completed 1 [] ''Error response from daemon: container abc is not running''),
     port_bound = (\<lambda>p. False), clock = 0, repr_other = (\<lambda>v. ''?'') \<rparr>"

definition demo_launch :: launch where
  "demo_launch = \<lparr> gpus = None, image_arg = PStr ''x'', cpuset = None, mem_gb = Some 8,
     mem_swap_gb = Some 8, shm_gb = Some 4, stor_gb = None, ssh_password = PStr ''p'',
     jupyter_token = PStr ''p'' \<rparr>"

definition demo_history :: "cmd list" where
  "demo_history =
     snd (start_with_port_mapping demo_host [] ''task_1'' [(PInt 5000, PInt 22)] demo_launch)"

text \<open>Answers of the control plane: a task to start, a server-side exception, no task.\<close>

definition demo_task_response :: pull where
  "demo_task_response =
     Response 200 (Inr (PDict [(PStr ''exception'', PInt 0),
       (PStr ''data'', PDict [(PStr ''task_id'', PInt 1),
          (PStr ''task_data'', PDict [(PStr ''docker_image'', PStr ''x'')]),
          (PStr ''container_info'', PDict [(PStr ''ssh_password'', PStr ''p'')])])]))"

definition demo_exception_response :: pull where
  "demo_exception_response =
     Response 200 (Inr (PDict [(PStr ''exception'', PInt 1), (PStr ''message'', PStr ''busy'')]))"

definition demo_no_task_response :: pull where
  "demo_no_task_response =
     Response 200 (Inr (PDict [(PStr ''exception'', PInt 0), (PStr ''data'', PDict [])]))"

text \<open>A callback that always returns a result.\<close>

definition demo_callback :: "unit \<Rightarrow> pyval \<Rightarrow> (py_error + pyval) \<times> unit" where
  "demo_callback st task = (Inr (PDict [(PStr ''status'', PStr ''running'')]), st)"

section \<open>The derived parameters as the specification words them\<close>




definition shm_spec :: "pyval \<Rightarrow> int option" where
  "shm_spec ram =
     (if ram = PNone then None
      else (case py_int ram of
              Inl e \<Rightarrow> None
            | Inr m \<Rightarrow> if 0 < m then Some (max 1 (m div 2)) else None))"

definition exact_half :: "pyval \<Rightarrow> bool" where
  "exact_half ram = (case py_int ram of Inl e \<Rightarrow> True | Inr m \<Rightarrow> m < 2 ^ 53)"





text \<open>A key of a port mapping that \<open>int\<close> turns into a port number, and that number.\<close>

definition is_port :: "pyval \<Rightarrow> bool" where
  "is_port k = (case py_int k of Inl e \<Rightarrow> False | Inr p \<Rightarrow> 0 \<le> p \<and> p \<le> 65535)"

definition port_of :: "pyval \<Rightarrow> int" where
  "port_of k = (case py_int k of Inl e \<Rightarrow> 0 | Inr p \<Rightarrow> p)"

text \<open>What the engine's answer to a command says.\<close>

definition exit_ok :: "proc \<Rightarrow> bool" where
  "exit_ok r = (case r of Completed rc out err \<Rightarrow> rc = 0 | Raised e \<Rightarrow> False)"

definition reports_not_found :: "proc \<Rightarrow> bool" where
  "reports_not_found r =
     (case r of Completed rc out err \<Rightarrow> contains ''No such container'' (err @ out) | Raised e \<Rightarrow> False)"

definition reports_not_running :: "proc \<Rightarrow> bool" where
  "reports_not_running r =
     (case r of Completed rc out err \<Rightarrow> contains ''is not running'' (err @ out) | Raised e \<Rightarrow> False)"

text \<open>
  Success of \<open>stopById\<close> and of \<open>removeById\<close> as the specification words it: the engine
  did it, or reports the container as not found or not running.
\<close>

definition by_id_spec :: "proc \<Rightarrow> bool" where
  "by_id_spec r = (exit_ok r \<or> reports_not_found r \<or> reports_not_running r)"


text \<open>Kinds of cycle, read off the answer of the control plane.\<close>

definition server_exception :: "pull \<Rightarrow> bool" where
  "server_exception p =
     (case p of
        Response status body \<Rightarrow>
          status = 200 \<and>
          (case body of
             Inl e \<Rightarrow> False
           | Inr j \<Rightarrow>
               (case as_dict j of
                  Inl e \<Rightarrow> False
                | Inr resp_json \<Rightarrow> \<not> py_eq_int (dict_get resp_json ''exception'') 0))
      | _ \<Rightarrow> False)"

definition no_task :: "pull \<Rightarrow> bool" where
  "no_task p =
     (case p of
        Response status body \<Rightarrow>
          status = 200 \<and>
          (case body of
             Inl e \<Rightarrow> False
           | Inr j \<Rightarrow>
               (case as_dict j of
                  Inl e \<Rightarrow> False
                | Inr resp_json \<Rightarrow>
                    py_eq_int (dict_get resp_json ''exception'') 0 \<and>
                    (case as_dict (dict_get_default resp_json ''data'' (PDict [])) of
                       Inl e \<Rightarrow> False
                     | Inr data \<Rightarrow> dict_get data ''task_id'' = PNone)))
      | _ \<Rightarrow> False)"

definition transport_failure :: "pull \<Rightarrow> bool" where
  "transport_failure p = (case p of Response status body \<Rightarrow> status \<noteq> 200 | _ \<Rightarrow> True)"

text \<open>The data of an answer with status 200, a dictionary body and no exception flag.\<close>

definition answer :: "pull \<Rightarrow> (pyval \<times> pyval) list option" where
  "answer p =
     (case p of
        Response status body \<Rightarrow>
          if status = 200 then
            (case body of
               Inl e \<Rightarrow> None
             | Inr j \<Rightarrow>
                 (case as_dict j of
                    Inl e \<Rightarrow> None
                  | Inr resp_json \<Rightarrow>
                      if py_eq_int (dict_get resp_json ''exception'') 0 then
                        (case as_dict (dict_get_default resp_json ''data'' (PDict [])) of
                           Inl e \<Rightarrow> None
                         | Inr data \<Rightarrow> Some data)
                      else None))
          else None
      | _ \<Rightarrow> None)"

text \<open>
  A body that cannot be read: \<open>response.json()\<close> raises, or gives no dictionary, or its
  \<open>data\<close> is no dictionary.
\<close>

definition bad_body :: "pull \<Rightarrow> bool" where
  "bad_body p =
     (case p of
        Response status body \<Rightarrow>
          status = 200 \<and>
          (case body of
             Inl e \<Rightarrow> True
           | Inr j \<Rightarrow>
               (case as_dict j of
                  Inl e \<Rightarrow> True
                | Inr resp_json \<Rightarrow>
                    py_eq_int (dict_get resp_json ''exception'') 0 \<and>
                    isl (as_dict (dict_get_default resp_json ''data'' (PDict [])))))
      | _ \<Rightarrow> False)"

text \<open>
  A task identifier that comes without task data or connectivity block, or with one
  that is no dictionary.
\<close>

definition invalid_task_data :: "pull \<Rightarrow> bool" where
  "invalid_task_data p =
     (case answer p of
        None \<Rightarrow> False
      | Some data \<Rightarrow>
          dict_get data ''task_id'' \<noteq> PNone \<and>
          (isl (as_dict (dict_get data ''task_data'')) \<or> isl (as_dict (dict_get data ''container_info''))))"

text \<open>The task of an answer that brings one: identifier, task data, connectivity block.\<close>

definition pulled_task :: "pull \<Rightarrow> (pyval \<times> pyval \<times> pyval) option" where
  "pulled_task p =
     (case answer p of
        None \<Rightarrow> None
      | Some data \<Rightarrow>
          if dict_get data ''task_id'' = PNone \<or> isl (as_dict (dict_get data ''task_data''))
             \<or> isl (as_dict (dict_get data ''container_info''))
          then None
          else Some (dict_get data ''task_id'', dict_get data ''task_data'', dict_get data ''container_info''))"

definition full_task :: "pyval \<Rightarrow> pyval \<Rightarrow> pyval \<Rightarrow> pyval" where
  "full_task task_id task_data container_info =
     PDict [(PStr ''id'', task_id), (PStr ''task_data'', task_data),
            (PStr ''container_info'', container_info)]"

text \<open>A result that \<open>send_task_status\<close> is called with and can read: truthy, a dictionary.\<close>

definition reportable :: "pyval \<Rightarrow> bool" where
  "reportable result = (py_truthy result \<and> \<not> isl (as_dict result))"





text \<open>A callback that returns no result.\<close>

definition none_callback :: "unit \<Rightarrow> pyval \<Rightarrow> (py_error + pyval) \<times> unit" where
  "none_callback st task = (Inr PNone, st)"

text \<open>
  The waits of the backoff policy as the specification words it, from the error counter
  and the list that says of each cycle whether it had a poll, process or report failure.
\<close>

fun spec_waits :: "int \<Rightarrow> bool list \<Rightarrow> int list" where
  "spec_waits c [] = []"
| "spec_waits c (failed # rest) =
     (let c' = (if failed then c + 1 else 0)
      in (if 5 \<le> c' then 60 else 10) # spec_waits c' rest)"

section \<open>Properties of the resource translation\<close>

subsection \<open>\<open>int\<close> of a string\<close>

lemma int_of_str_padding:
  "py_int (PStr ([CHR 0xA0, CHR 0x09] @ ''+1_000'' @ [CHR 0x20, CHR 0x85])) = Inr 1000"
  by code_simp

lemma int_of_str_separators:
  "py_int (PStr (''8'' @ [CHR 0x1F])) = Inl ValueError"
  "py_int (PStr ([CHR 0x1C] @ ''0'')) = Inl ValueError"
  "py_int (PStr ''1__0'') = Inl ValueError"
  "py_int (PStr ''+ 8'') = Inl ValueError"
  by code_simp+

lemma count_digits_ones: "count_digits (replicate n (CHR ''1'')) = int n"
  by (induction n) (simp_all add: is_digit_def)

lemma int_strip_ones: "int_strip (replicate n (CHR ''1'')) = replicate n (CHR ''1'')"
proof -
  have "dropWhile int_isspace (replicate n (CHR ''1'')) = replicate n (CHR ''1'')"
    by (cases n) (simp_all add: int_isspace_def)
  then show ?thesis by (simp add: int_strip_def)
qed

lemma int_of_str_digit_limit:
  assumes "4300 < n"
  shows "py_int (PStr (replicate n (CHR ''1''))) = Inl ValueError"
proof (cases n)
  case 0
  with assms show ?thesis by simp
next
  case (Suc m)
  have s: "int_strip (CHR ''1'' # replicate m (CHR ''1'')) = CHR ''1'' # replicate m (CHR ''1'')"
    using int_strip_ones [of "Suc m"] by simp
  have c: "count_digits (CHR ''1'' # replicate m (CHR ''1'')) = int (Suc m)"
    using count_digits_ones [of "Suc m"] by simp
  show ?thesis
    using assms Suc
    by (simp add: int_of_str_def s c max_str_digits_def del: count_digits.simps)
qed

subsection \<open>Shared memory, CPU affinity, GPU selector\<close>

lemma bit_length_le: "m < 2 ^ k \<Longrightarrow> bit_length m \<le> k"
proof (induction k arbitrary: m)
  case 0
  then show ?case by (simp add: bit_length.simps)
next
  case (Suc k)
  then have "m div 2 < 2 ^ k" by simp
  then have "bit_length (m div 2) \<le> k" by (rule Suc.IH)
  then show ?case by (subst bit_length.simps) simp
qed

lemma half_as_double_exact: "m < 2 ^ 53 \<Longrightarrow> half_as_double m = Inr (m div 2)"
  using bit_length_le [of m 53] by (simp add: half_as_double_def)

lemma int_of_half_exact:
  assumes "0 < m" "m < 2 ^ 53"
  shows "int_of_half m = Inr (m div 2)"
proof -
  have "nat m < 2 ^ 53" using assms by (simp add: nat_less_iff)
  then have "half_as_double (nat m) = Inr (nat m div 2)" by (rule half_as_double_exact)
  moreover have "int (nat m div 2) = m div 2" using assms by (simp add: zdiv_int)
  ultimately show ?thesis using assms by (simp add: int_of_half_def)
qed

text \<open>
  C4 (amended).  Whenever \<open>ram_allocated_gb\<close> is unset, is rejected by \<open>int\<close>, or parses
  to an integer below \<open>2 ^ 53\<close>, the shared-memory size is \<open>max(1, floor(ram / 2))\<close> for
  a positive parsed value and unset otherwise.
\<close>

theorem shm_size_gb_exact_half:
  assumes "exact_half (dict_get task_data ''ram_allocated_gb'')"
  shows "shm_size_gb task_data = shm_spec (dict_get task_data ''ram_allocated_gb'')"
proof (cases "py_int (dict_get task_data ''ram_allocated_gb'')")
  case (Inl e)
  then show ?thesis
    by (simp add: shm_size_gb_def memory_gb_def int_or_none_def shm_size_of_def shm_spec_def)
next
  case (Inr m)
  with assms have "m < 2 ^ 53" by (simp add: exact_half_def)
  then show ?thesis using Inr
    by (simp add: shm_size_gb_def memory_gb_def int_or_none_def shm_size_of_def shm_spec_def
        int_of_half_exact)
qed









lemma bit_length_eq: "2 ^ k \<le> m \<Longrightarrow> m < 2 ^ Suc k \<Longrightarrow> bit_length m = Suc k"
proof (induction k arbitrary: m)
  case 0
  then have "m = 1" by simp
  then show ?case by (simp add: bit_length.simps)
next
  case (Suc k)
  then have "2 ^ k \<le> m div 2" and "m div 2 < 2 ^ Suc k" and "m \<noteq> 0" by auto
  then have "bit_length (m div 2) = Suc k" using Suc.IH by blast
  then show ?case using \<open>m \<noteq> 0\<close> by (subst bit_length.simps) simp
qed

lemma bit_length_big: "bit_length 9007199254740995 = 54"
proof -
  have "bit_length 9007199254740995 = Suc 53"
    by (rule bit_length_eq) simp_all
  then show ?thesis by simp
qed

lemma half_as_double_big: "half_as_double 9007199254740995 = Inr 4503599627370498"
  by (simp add: half_as_double_def bit_length_big Let_def)

theorem shm_size_gb_exact_half_witness:
  "exact_half (dict_get [(PStr ''ram_allocated_gb'', PInt 8)] ''ram_allocated_gb'') \<and>
   shm_size_gb [(PStr ''ram_allocated_gb'', PInt 8)] = Some 4 \<and>
   shm_size_gb [(PStr ''ram_allocated_gb'', PInt 1)] = Some 1 \<and>
   shm_size_gb [] = None"
proof -
  have h8: "exact_half (dict_get [(PStr ''ram_allocated_gb'', PInt 8)] ''ram_allocated_gb'')"
    by (simp add: exact_half_def dict_get_def dict_get_default_def)
  have h1: "exact_half (dict_get [(PStr ''ram_allocated_gb'', PInt 1)] ''ram_allocated_gb'')"
    by (simp add: exact_half_def dict_get_def dict_get_default_def)
  have h0: "exact_half (dict_get [] ''ram_allocated_gb'')"
    by (simp add: exact_half_def dict_get_def dict_get_default_def)
  have s8: "shm_spec (dict_get [(PStr ''ram_allocated_gb'', PInt 8)] ''ram_allocated_gb'') = Some 4"
    by (simp add: shm_spec_def dict_get_def dict_get_default_def)
  have s1: "shm_spec (dict_get [(PStr ''ram_allocated_gb'', PInt 1)] ''ram_allocated_gb'') = Some 1"
    by (simp add: shm_spec_def dict_get_def dict_get_default_def)
  have s0: "shm_spec (dict_get [] ''ram_allocated_gb'') = None"
    by (simp add: shm_spec_def dict_get_def dict_get_default_def)
  show ?thesis
    using h8 shm_size_gb_exact_half [OF h8] shm_size_gb_exact_half [OF h1]
      shm_size_gb_exact_half [OF h0] s8 s1 s0
    by simp
qed

text \<open>
  At \<open>ram_allocated_gb = 2 ^ 53 + 3\<close> the quotient \<open>2 ^ 52 + 1.5\<close> is not a double: it is
  rounded to \<open>2 ^ 52 + 2\<close>, one more than the floor.
\<close>

theorem shm_size_gb_rounds_counterexample:
  "shm_size_gb [(PStr ''ram_allocated_gb'', PInt 9007199254740995)] = Some 4503599627370498 \<and>
   shm_spec (dict_get [(PStr ''ram_allocated_gb'', PInt 9007199254740995)] ''ram_allocated_gb'')
     = Some 4503599627370497"
  by (simp add: shm_size_gb_def memory_gb_def int_or_none_def shm_size_of_def shm_spec_def
      dict_get_def dict_get_default_def int_of_half_def half_as_double_big)





section \<open>Properties of the container manager\<close>

lemma port_mapping_loop_ports:
  "list_all is_port ks \<Longrightarrow>
     port_mapping_loop H ks bad =
       Inr (bad @ map (py_str H) (filter (\<lambda>k. port_bound H (port_of k)) ks))"
  by (induction ks arbitrary: bad)
     (auto simp: is_port_def port_of_def port_free_def split: sum.splits)

text \<open>
  C7.  For host ports (keys that \<open>int\<close> turns into a number from 0 to 65535) the assertion
  over a port mapping succeeds exactly when no port is bound, and otherwise raises the
  error that lists the bound ports, all of them and no free one, in the order of the
  mapping; the assertion over the two ports of the legacy mode does the same.
\<close>

theorem assert_ports_free_lists_bound:
  assumes "list_all is_port (map fst port_mapping)"
    and "0 \<le> p" "p \<le> 65535" "0 \<le> q" "q \<le> 65535"
  shows "assert_port_mapping_free H port_mapping =
           (if filter (\<lambda>k. port_bound H (port_of k)) (map fst port_mapping) = [] then Inr ()
            else Inl (PortsBusy (map (py_str H)
                   (filter (\<lambda>k. port_bound H (port_of k)) (map fst port_mapping))))) \<and>
         assert_ports_free H (PInt p) (PInt q) =
           (if filter (port_bound H) [p, q] = [] then Inr ()
            else Inl (PortsBusy (map str_int (filter (port_bound H) [p, q]))))"
proof
  show "assert_port_mapping_free H port_mapping =
           (if filter (\<lambda>k. port_bound H (port_of k)) (map fst port_mapping) = [] then Inr ()
            else Inl (PortsBusy (map (py_str H)
                   (filter (\<lambda>k. port_bound H (port_of k)) (map fst port_mapping)))))"
    using port_mapping_loop_ports [OF assms(1), of H "[]"]
    by (simp add: assert_port_mapping_free_def)
  show "assert_ports_free H (PInt p) (PInt q) =
           (if filter (port_bound H) [p, q] = [] then Inr ()
            else Inl (PortsBusy (map str_int (filter (port_bound H) [p, q]))))"
    using assms(2-5) by (simp add: assert_ports_free_def port_free_def py_str_def)
qed

theorem assert_ports_free_lists_bound_witness:
  "list_all is_port (map fst [(PInt 8080, PInt 22), (PStr ''5000'', PInt 8888)]) \<and>
   assert_port_mapping_free demo_host [(PInt 8080, PInt 22), (PStr ''5000'', PInt 8888)]
     = Inl (PortsBusy [''8080'']) \<and>
   assert_ports_free demo_host (PInt 5000) (PInt 8080) = Inl (PortsBusy [''8080'']) \<and>
   assert_ports_free demo_host (PInt 5000) (PInt 5001) = Inr ()"
proof -
  let ?pm = "[(PInt 8080, PInt 22), (PStr ''5000'', PInt 8888)]"
  have h: "list_all is_port (map fst ?pm)" by code_simp
  have a: "(if filter (\<lambda>k. port_bound demo_host (port_of k)) (map fst ?pm) = [] then Inr ()
            else Inl (PortsBusy (map (py_str demo_host)
                   (filter (\<lambda>k. port_bound demo_host (port_of k)) (map fst ?pm)))))
           = Inl (PortsBusy [''8080''])"
    by code_simp
  have b: "(if filter (port_bound demo_host) [5000, 8080] = [] then Inr ()
            else Inl (PortsBusy (map str_int (filter (port_bound demo_host) [5000, 8080]))))
           = Inl (PortsBusy [''8080''])"
    by code_simp
  have c: "(if filter (port_bound demo_host) [5000, 5001] = [] then Inr ()
            else Inl (PortsBusy (map str_int (filter (port_bound demo_host) [5000, 5001]))))
           = Inr ()"
    by code_simp
  show ?thesis
    using h assert_ports_free_lists_bound [OF h, of 5000 8080 demo_host]
      assert_ports_free_lists_bound [OF h, of 5000 5001 demo_host]
    by (simp only: a b c)
qed

lemma run_str_args:
  "run H h [PStr a, PStr b, PStr c] check =
     (case engine H h [a, b, c] of
        Raised e \<Rightarrow> (Inl e, h @ [[a, b, c]])
      | Completed rc out err \<Rightarrow>
          if check \<and> rc \<noteq> 0 then (Inl (CalledProcessError rc), h @ [[a, b, c]])
          else (Inr (rc, out, err), h @ [[a, b, c]]))"
  by (simp add: run_def)


text \<open>
  C8 (amended).  \<open>stop_by_id\<close> returns true exactly when the engine's \<open>docker stop\<close> exits
  with code 0 or its output says "No such container" or "is not running"; \<open>remove_by_id\<close>
  returns true exactly when \<open>docker rm\<close> exits with code 0 or its output says "No such
  container".  In every other case, an exception of the engine call and an identifier that
  is not a string included, they return false; they are total, so nothing is raised.
\<close>

theorem stop_remove_by_id_idempotent:
  "fst (stop_by_id H h container_id) =
     (case container_id of
        PStr c \<Rightarrow> by_id_spec (engine H h [''docker'', ''stop'', c])
      | _ \<Rightarrow> False) \<and>
   fst (remove_by_id H h container_id) =
     (case container_id of
        PStr c \<Rightarrow> exit_ok (engine H h [''docker'', ''rm'', c]) \<or>
                  reports_not_found (engine H h [''docker'', ''rm'', c])
      | _ \<Rightarrow> False)"
proof
  show "fst (stop_by_id H h container_id) =
     (case container_id of
        PStr c \<Rightarrow> by_id_spec (engine H h [''docker'', ''stop'', c])
      | _ \<Rightarrow> False)"
  proof (cases container_id)
    case (PStr c)
    then show ?thesis
      by (auto simp: stop_by_id_def run_str_args by_id_spec_def exit_ok_def reports_not_found_def
            reports_not_running_def split: proc.splits)
  qed (simp_all add: stop_by_id_def run_def)
  show "fst (remove_by_id H h container_id) =
     (case container_id of
        PStr c \<Rightarrow> exit_ok (engine H h [''docker'', ''rm'', c]) \<or>
                  reports_not_found (engine H h [''docker'', ''rm'', c])
      | _ \<Rightarrow> False)"
  proof (cases container_id)
    case (PStr c)
    then show ?thesis
      by (auto simp: remove_by_id_def run_str_args exit_ok_def reports_not_found_def
            split: proc.splits)
  qed (simp_all add: remove_by_id_def run_def)
qed

theorem stop_remove_by_id_idempotent_witness:
  "fst (stop_by_id demo_host [] (PStr ''abc'')) = True \<and>
   fst (remove_by_id demo_host [] (PStr ''abc'')) = True \<and>
   fst (stop_by_id not_running_host [] (PStr ''abc'')) = True"
proof -
  have a: "by_id_spec (engine demo_host [] [''docker'', ''stop'', ''abc''])" by code_simp
  have b: "reports_not_found (engine demo_host [] [''docker'', ''rm'', ''abc''])" by code_simp
  have c: "by_id_spec (engine not_running_host [] [''docker'', ''stop'', ''abc''])" by code_simp
  show ?thesis
    using stop_remove_by_id_idempotent [of demo_host "[]" "PStr ''abc''"]
      stop_remove_by_id_idempotent [of not_running_host "[]" "PStr ''abc''"]
      a b c
    by simp
qed

text \<open>
  An engine that answers \<open>docker rm\<close> with a "not running" message and a non-zero exit
  code: as the specification is worded \<open>removeById\<close> succeeds, the code returns false.
\<close>

theorem remove_by_id_not_running_counterexample:
  "by_id_spec (engine not_running_host [] [''docker'', ''rm'', ''abc'']) \<and>
   fst (remove_by_id not_running_host [] (PStr ''abc'')) = False"
  by code_simp

lemma start_with_port_mapping_running:
  "running H h name = (Inr True, h') \<Longrightarrow>
     start_with_port_mapping H h name port_mapping L = (Inr None, h')"
  by (simp add: start_with_port_mapping_def bind_r_def)

lemma start_running:
  "running H h name = (Inr True, h') \<Longrightarrow> start H h name ssh_port jup_port L = (Inr None, h')"
  by (simp add: start_def bind_r_def)

lemma running_history:
  "running H h name = (r, h') \<Longrightarrow> h' = h @ [[''docker'', ''ps'', ''--format'', ''{{.Names}}'']]"
  by (auto simp: running_def run_def bind_r_def split: proc.splits if_splits)

text \<open>
  C1.  When the container runs already, \<open>start\<close> and \<open>start_with_port_mapping\<close> run the
  listing of the running containers and nothing else, so no container and no volume is
  created; but they return \<open>None\<close>, not the identifier that the launch returned.
\<close>

theorem start_running_returns_none:
  assumes "running H h name = (Inr True, h')"
  shows "start_with_port_mapping H h name port_mapping L
           = (Inr None, h @ [[''docker'', ''ps'', ''--format'', ''{{.Names}}'']]) \<and>
         start H h name ssh_port jup_port L
           = (Inr None, h @ [[''docker'', ''ps'', ''--format'', ''{{.Names}}'']])"
  using assms running_history [OF assms]
  by (simp add: start_with_port_mapping_running start_running)

theorem start_running_returns_none_witness:
  "fst (start_with_port_mapping demo_host [] ''task_1'' [(PInt 5000, PInt 22)] demo_launch)
     = Inr (Some ''c0ffee'') \<and>
   running demo_host demo_history ''task_1''
     = (Inr True, demo_history @ [[''docker'', ''ps'', ''--format'', ''{{.Names}}'']]) \<and>
   start_with_port_mapping demo_host demo_history ''task_1'' [(PInt 5000, PInt 22)] demo_launch
     = (Inr None, demo_history @ [[''docker'', ''ps'', ''--format'', ''{{.Names}}'']]) \<and>
   start demo_host demo_history ''task_1'' (PInt 5000) (PInt 5001) demo_launch
     = (Inr None, demo_history @ [[''docker'', ''ps'', ''--format'', ''{{.Names}}'']])"
proof -
  have a: "fst (start_with_port_mapping demo_host [] ''task_1'' [(PInt 5000, PInt 22)] demo_launch)
     = Inr (Some ''c0ffee'')"
    by code_simp
  have "fst (running demo_host demo_history ''task_1'') = Inr True"
    by code_simp
  then have r: "running demo_host demo_history ''task_1''
     = (Inr True, snd (running demo_host demo_history ''task_1''))"
    by (metis prod.collapse)
  show ?thesis
    using a r start_running_returns_none [OF r, of "[(PInt 5000, PInt 22)]" demo_launch "PInt 5000" "PInt 5001"]
      running_history [OF r]
    by simp
qed

section \<open>Properties of the task processor\<close>


text \<open>
  C9.  A control task (operation \<open>stop\<close> or \<open>stop_remove\<close> after stripping and lowering)
  with no truthy \<open>container_id\<close> in its task data and in its connectivity block makes
  \<open>process_task\<close> return the dictionary with status \<open>failed\<close> and the message \<open>Missing
  container_id in control task\<close>; no exception leaves it and no engine command is run.
\<close>

theorem control_task_missing_container_id:
  assumes "as_dict task = Inr t"
    and "as_dict (dict_get_default t ''task_data'' (PDict [])) = Inr task_data"
    and "as_dict (dict_get_default t ''container_info'' (PDict [])) = Inr ci"
    and "operation_of task_data = Inr operation"
    and "operation = ''stop'' \<or> operation = ''stop_remove''"
    and "\<not> py_truthy (dict_get task_data ''container_id'')"
    and "\<not> py_truthy (dict_get ci ''container_id'')"
  shows "process_task H h task =
           (PDict [(PStr ''status'', PStr ''failed''),
                   (PStr ''container_id'', PStr []),
                   (PStr ''container_name'',
                      py_or (dict_get task_data ''container_name'') (dict_get ci ''container_name'')),
                   (PStr ''error_message'', PStr ''Missing container_id in control task'')], h)"
proof -
  have "control_task H h operation task_data (dict_get_default t ''container_info'' (PDict [])) =
          (Inr (PDict [(PStr ''status'', PStr ''failed''),
                   (PStr ''container_id'', PStr []),
                   (PStr ''container_name'',
                      py_or (dict_get task_data ''container_name'') (dict_get ci ''container_name'')),
                   (PStr ''error_message'', PStr ''Missing container_id in control task'')]), h)"
    using assms(3,6,7) by (simp add: control_task_def get_or_get_def py_or_def)
  then show ?thesis
    using assms(1,2,4,5) by (auto simp: process_task_def process_task_body_def)
qed

theorem control_task_missing_container_id_witness:
  "process_task demo_host []
     (PDict [(PStr ''id'', PInt 7),
             (PStr ''task_data'', PDict [(PStr ''operation'', PStr '' Stop_Remove '')]),
             (PStr ''container_info'', PDict [(PStr ''container_name'', PStr ''task_3'')])])
   = (PDict [(PStr ''status'', PStr ''failed''),
             (PStr ''container_id'', PStr []),
             (PStr ''container_name'', PStr ''task_3''),
             (PStr ''error_message'', PStr ''Missing container_id in control task'')], [])"
proof -
  let ?td = "[(PStr ''operation'', PStr '' Stop_Remove '')]"
  let ?ci = "[(PStr ''container_name'', PStr ''task_3'')]"
  let ?t = "[(PStr ''id'', PInt 7), (PStr ''task_data'', PDict ?td), (PStr ''container_info'', PDict ?ci)]"
  have 1: "as_dict (PDict ?t) = Inr ?t" by (simp add: as_dict_def)
  have 2: "as_dict (dict_get_default ?t ''task_data'' (PDict [])) = Inr ?td"
    by (simp add: as_dict_def dict_get_default_def)
  have 3: "as_dict (dict_get_default ?t ''container_info'' (PDict [])) = Inr ?ci"
    by (simp add: as_dict_def dict_get_default_def)
  have 4: "operation_of ?td = Inr ''stop_remove''" by code_simp
  have 5: "''stop_remove'' = ''stop'' \<or> ''stop_remove'' = ''stop_remove''" by simp
  have 6: "\<not> py_truthy (dict_get ?td ''container_id'')"
    by (simp add: dict_get_def dict_get_default_def)
  have 7: "\<not> py_truthy (dict_get ?ci ''container_id'')"
    by (simp add: dict_get_def dict_get_default_def)
  have 8: "py_or (dict_get ?td ''container_name'') (dict_get ?ci ''container_name'') = PStr ''task_3''"
    by (simp add: py_or_def dict_get_def dict_get_default_def)
  show ?thesis
    using control_task_missing_container_id [OF 1 2 3 4 5 6 7, of demo_host "[]"]
    by (simp only: 8)
qed





lemma process_task_raised:
  "isl (fst (process_task_body H h task)) \<Longrightarrow> fst (process_task H h task) = PNone"
  by (cases "process_task_body H h task") (auto simp: process_task_def split: sum.splits)

lemma process_task_no_image:
  assumes "as_dict task = Inr t"
    and "as_dict (dict_get_default t ''task_data'' (PDict [])) = Inr task_data"
    and "operation_of task_data = Inr operation"
    and "operation \<noteq> ''stop''" and "operation \<noteq> ''stop_remove''"
    and "\<not> py_truthy (dict_get task_data ''docker_image'')"
  shows "process_task H h task = (PNone, h)"
  using assms by (simp add: process_task_def process_task_body_def provision_def)

lemma process_task_no_credentials:
  assumes "as_dict task = Inr t"
    and "as_dict (dict_get_default t ''task_data'' (PDict [])) = Inr task_data"
    and "as_dict (dict_get_default t ''container_info'' (PDict [])) = Inr ci"
    and "operation_of task_data = Inr operation"
    and "operation \<noteq> ''stop''" and "operation \<noteq> ''stop_remove''"
    and "(is_port_mapping (dict_get ci ''port_mapping'') \<and> \<not> py_truthy (dict_get ci ''ssh_password'')) \<or>
         (\<not> is_port_mapping (dict_get ci ''port_mapping'') \<and>
          (\<not> py_truthy (dict_get ci ''ssh_password'') \<or> \<not> py_truthy (dict_get ci ''ssh_port'')))"
  shows "process_task H h task = (PNone, h)"
  using assms
  by (auto simp: process_task_def process_task_body_def provision_def provision_mapped_def
        provision_legacy_def Let_def)

lemma dispatch_none:
  assumes "fst (callback st (PDict [(PStr ''id'', task_id), (PStr ''task_data'', PDict task_data),
                                    (PStr ''container_info'', PDict ci)])) = Inr PNone"
  shows "fst (dispatch send_task_status callback st c task_id (PDict task_data) (PDict ci)) = error_cycle c"
  using assms
  by (cases "callback st (PDict [(PStr ''id'', task_id), (PStr ''task_data'', PDict task_data),
                                 (PStr ''container_info'', PDict ci)])")
     (simp add: dispatch_def as_dict_def)

text \<open>
  C2.  A provisioning task that lacks \<open>docker_image\<close>, or the SSH password (in both modes)
  or the SSH port (in the legacy mode), or whose processing raises anywhere (resource
  translation, port check, image, launch), makes \<open>process_task\<close> return \<open>None\<close>; the polling
  cycle that pulled it calls \<open>send_task_status\<close> not at all, counts one more error and goes
  on.
\<close>

theorem provisioning_failure_unreported:
  assumes "py_eq_int (dict_get resp_json ''exception'') 0"
    and "as_dict (dict_get_default resp_json ''data'' (PDict [])) = Inr data"
    and "dict_get data ''task_id'' \<noteq> PNone"
    and "dict_get data ''task_data'' = PDict task_data"
    and "dict_get data ''container_info'' = PDict ci"
    and "task = PDict [(PStr ''id'', dict_get data ''task_id''), (PStr ''task_data'', PDict task_data),
                       (PStr ''container_info'', PDict ci)]"
    and "operation_of task_data = Inr operation"
    and "operation \<noteq> ''stop''" and "operation \<noteq> ''stop_remove''"
    and "\<not> py_truthy (dict_get task_data ''docker_image'') \<or>
         (is_port_mapping (dict_get ci ''port_mapping'') \<and> \<not> py_truthy (dict_get ci ''ssh_password'')) \<or>
         (\<not> is_port_mapping (dict_get ci ''port_mapping'') \<and>
          (\<not> py_truthy (dict_get ci ''ssh_password'') \<or> \<not> py_truthy (dict_get ci ''ssh_port''))) \<or>
         isl (fst (process_task_body H h task))"
  shows "fst (process_task H h task) = PNone \<and>
         reports (fst (poll_cycle send_task_status (agent_callback H) h c
                         (Response 200 (Inr (PDict resp_json))))) = [] \<and>
         counter (fst (poll_cycle send_task_status (agent_callback H) h c
                         (Response 200 (Inr (PDict resp_json))))) = c + 1"
proof -
  let ?t = "[(PStr ''id'', dict_get data ''task_id''), (PStr ''task_data'', PDict task_data),
             (PStr ''container_info'', PDict ci)]"
  have 1: "as_dict task = Inr ?t" using assms(6) by (simp add: as_dict_def)
  have 2: "as_dict (dict_get_default ?t ''task_data'' (PDict [])) = Inr task_data"
    by (simp add: as_dict_def dict_get_default_def)
  have 3: "as_dict (dict_get_default ?t ''container_info'' (PDict [])) = Inr ci"
    by (simp add: as_dict_def dict_get_default_def)
  have none: "fst (process_task H h task) = PNone"
    using assms(10)
  proof (elim disjE)
    assume "\<not> py_truthy (dict_get task_data ''docker_image'')"
    then show ?thesis
      using process_task_no_image [OF 1 2 assms(7,8,9), of H h] by simp
  next
    assume "is_port_mapping (dict_get ci ''port_mapping'') \<and> \<not> py_truthy (dict_get ci ''ssh_password'')"
    then show ?thesis
      using process_task_no_credentials [OF 1 2 3 assms(7,8,9), of H h] by simp
  next
    assume "\<not> is_port_mapping (dict_get ci ''port_mapping'') \<and>
          (\<not> py_truthy (dict_get ci ''ssh_password'') \<or> \<not> py_truthy (dict_get ci ''ssh_port''))"
    then show ?thesis
      using process_task_no_credentials [OF 1 2 3 assms(7,8,9), of H h] by simp
  next
    assume "isl (fst (process_task_body H h task))"
    then show ?thesis by (rule process_task_raised)
  qed
  then have "fst (agent_callback H h (PDict ?t)) = Inr PNone"
    using assms(6) by (cases "process_task H h task") (simp add: agent_callback_def)
  then have "fst (dispatch send_task_status (agent_callback H) h c (dict_get data ''task_id'')
                    (PDict task_data) (PDict ci)) = error_cycle c"
    by (rule dispatch_none)
  then have "fst (poll_cycle send_task_status (agent_callback H) h c
                         (Response 200 (Inr (PDict resp_json)))) = error_cycle c"
    using assms(1-5) by (simp add: poll_cycle_def as_dict_def)
  with none show ?thesis by (simp add: error_cycle_def)
qed

theorem provisioning_failure_unreported_witness:
  "fst (process_task demo_host []
          (PDict [(PStr ''id'', PInt 1),
                  (PStr ''task_data'', PDict [(PStr ''ram_allocated_gb'', PInt 8)]),
                  (PStr ''container_info'', PDict [(PStr ''ssh_password'', PStr ''p'')])])) = PNone \<and>
   reports (fst (poll_cycle (\<lambda>task_id result. True) (agent_callback demo_host) [] 0
      (Response 200 (Inr (PDict [(PStr ''exception'', PInt 0),
         (PStr ''data'', PDict [(PStr ''task_id'', PInt 1),
            (PStr ''task_data'', PDict [(PStr ''ram_allocated_gb'', PInt 8)]),
            (PStr ''container_info'', PDict [(PStr ''ssh_password'', PStr ''p'')])])]))))) = [] \<and>
   counter (fst (poll_cycle (\<lambda>task_id result. True) (agent_callback demo_host) [] 0
      (Response 200 (Inr (PDict [(PStr ''exception'', PInt 0),
         (PStr ''data'', PDict [(PStr ''task_id'', PInt 1),
            (PStr ''task_data'', PDict [(PStr ''ram_allocated_gb'', PInt 8)]),
            (PStr ''container_info'', PDict [(PStr ''ssh_password'', PStr ''p'')])])]))))) = 1"
proof -
  let ?td = "[(PStr ''ram_allocated_gb'', PInt 8)]"
  let ?ci = "[(PStr ''ssh_password'', PStr ''p'')]"
  let ?data = "[(PStr ''task_id'', PInt 1), (PStr ''task_data'', PDict ?td), (PStr ''container_info'', PDict ?ci)]"
  let ?rj = "[(PStr ''exception'', PInt 0), (PStr ''data'', PDict ?data)]"
  have 1: "py_eq_int (dict_get ?rj ''exception'') 0" by code_simp
  have 2: "as_dict (dict_get_default ?rj ''data'' (PDict [])) = Inr ?data"
    by (simp add: as_dict_def dict_get_default_def)
  have 3: "dict_get ?data ''task_id'' \<noteq> PNone" by (simp add: dict_get_def dict_get_default_def)
  have 4: "dict_get ?data ''task_data'' = PDict ?td" by (simp add: dict_get_def dict_get_default_def)
  have 5: "dict_get ?data ''container_info'' = PDict ?ci" by (simp add: dict_get_def dict_get_default_def)
  have 7: "operation_of ?td = Inr []" by code_simp
  have 8: "[] \<noteq> ''stop''" and 9: "[] \<noteq> ''stop_remove''" by simp_all
  have 10: "\<not> py_truthy (dict_get ?td ''docker_image'')" by (simp add: dict_get_def dict_get_default_def)
  have tid: "dict_get ?data ''task_id'' = PInt 1" by (simp add: dict_get_def dict_get_default_def)
  show ?thesis
    using provisioning_failure_unreported [OF 1 2 3 4 5 refl 7 8 9 disjI1, OF 10, of demo_host "[]" "\<lambda>task_id result. True" 0]
    by (simp add: tid)
qed

text \<open>A launch that raises: the mapped host port 8080 is bound, and the task is dropped.\<close>

lemma ports_busy_dropped:
  "isl (fst (process_task_body demo_host []
          (PDict [(PStr ''id'', PInt 1),
                  (PStr ''task_data'', PDict [(PStr ''docker_image'', PStr ''x'')]),
                  (PStr ''container_info'', PDict [(PStr ''ssh_password'', PStr ''p''),
                     (PStr ''port_mapping'', PDict [(PInt 8080, PInt 22)])])])))"
  by code_simp

section \<open>Properties of the polling loop\<close>

lemma poll_cycle_answer:
  "answer p = Some data \<Longrightarrow>
     poll_cycle send_task_status callback st c p =
       (if dict_get data ''task_id'' \<noteq> PNone \<and> dict_get data ''task_data'' \<noteq> PNone
           \<and> dict_get data ''container_info'' \<noteq> PNone
        then dispatch send_task_status callback st c (dict_get data ''task_id'')
               (dict_get data ''task_data'') (dict_get data ''container_info'')
        else if dict_get data ''task_id'' = PNone then (clean_cycle [], st)
        else (error_cycle c, st))"
  by (auto simp: answer_def poll_cycle_def split: pull.splits sum.splits if_splits)

lemma poll_cycle_no_answer:
  "answer p = None \<Longrightarrow>
     poll_cycle send_task_status callback st c p =
       (if server_exception p then (\<lparr> counter = c + 1, wait = 10, reports = [] \<rparr>, st)
        else (error_cycle c, st))"
  by (auto simp: answer_def poll_cycle_def server_exception_def split: pull.splits sum.splits if_splits)

lemma answer_kinds:
  "answer p = None \<Longrightarrow> transport_failure p \<or> bad_body p \<or> server_exception p"
  by (auto simp: answer_def transport_failure_def bad_body_def server_exception_def
        split: pull.splits sum.splits if_splits)

lemma answer_not_failure:
  "answer p = Some data \<Longrightarrow> \<not> transport_failure p \<and> \<not> bad_body p \<and> \<not> server_exception p"
  by (auto simp: answer_def transport_failure_def bad_body_def server_exception_def
        split: pull.splits sum.splits if_splits)

lemma no_task_answer:
  "no_task p = (case answer p of None \<Rightarrow> False | Some data \<Rightarrow> dict_get data ''task_id'' = PNone)"
  by (auto simp: answer_def no_task_def split: pull.splits sum.splits if_splits option.splits)

lemma as_dict_none: "isl (as_dict PNone)"
  by (simp add: as_dict_def)

lemma dispatch_invalid:
  "isl (as_dict task_data) \<or> isl (as_dict container_info) \<Longrightarrow>
     dispatch send_task_status callback st c task_id task_data container_info = (error_cycle c, st)"
  by (auto simp: dispatch_def split: sum.splits)

lemma dispatch_valid:
  "\<not> isl (as_dict task_data) \<Longrightarrow> \<not> isl (as_dict container_info) \<Longrightarrow>
     dispatch send_task_status callback st c task_id task_data container_info =
       (case callback st (full_task task_id task_data container_info) of
          (Inl e, st') \<Rightarrow> (error_cycle c, st')
        | (Inr result, st') \<Rightarrow>
            if reportable result then
              (clean_cycle [(task_id, result, send_task_status task_id result)], st')
            else (error_cycle c, st'))"
  by (auto simp: dispatch_def full_task_def reportable_def split: sum.splits prod.splits)

lemma poll_cycle_failure:
  assumes "transport_failure p \<or> bad_body p \<or> invalid_task_data p"
  shows "poll_cycle send_task_status callback st c p = (error_cycle c, st)"
proof (cases "answer p")
  case None
  with assms have "\<not> server_exception p"
    by (auto simp: answer_def transport_failure_def bad_body_def server_exception_def
          invalid_task_data_def split: pull.splits sum.splits if_splits)
  with None show ?thesis by (simp add: poll_cycle_no_answer)
next
  case (Some data)
  with assms answer_not_failure [OF Some]
  have i: "dict_get data ''task_id'' \<noteq> PNone"
    and "isl (as_dict (dict_get data ''task_data'')) \<or> isl (as_dict (dict_get data ''container_info''))"
    by (auto simp: invalid_task_data_def)
  then show ?thesis
    using Some by (auto simp: poll_cycle_answer dispatch_invalid)
qed

lemma poll_cycle_server_exception:
  assumes "server_exception p"
  shows "poll_cycle send_task_status callback st c p = (\<lparr> counter = c + 1, wait = 10, reports = [] \<rparr>, st)"
proof (cases "answer p")
  case None
  with assms show ?thesis by (simp add: poll_cycle_no_answer)
next
  case (Some data)
  with assms answer_not_failure [OF Some] show ?thesis by simp
qed

lemma poll_cycle_no_task:
  assumes "no_task p"
  shows "poll_cycle send_task_status callback st c p = (clean_cycle [], st)"
proof (cases "answer p")
  case None
  with assms show ?thesis by (simp add: no_task_answer)
next
  case (Some data)
  with assms show ?thesis by (simp add: no_task_answer poll_cycle_answer)
qed

lemma poll_cycle_pulled:
  assumes "pulled_task p = Some (task_id, task_data, container_info)"
  shows "poll_cycle send_task_status callback st c p =
           (case callback st (full_task task_id task_data container_info) of
              (Inl e, st') \<Rightarrow> (error_cycle c, st')
            | (Inr result, st') \<Rightarrow>
                if reportable result then
                  (clean_cycle [(task_id, result, send_task_status task_id result)], st')
                else (error_cycle c, st'))"
proof (cases "answer p")
  case None
  with assms show ?thesis by (simp add: pulled_task_def)
next
  case (Some data)
  with assms have t: "dict_get data ''task_id'' = task_id" "dict_get data ''task_data'' = task_data"
      "dict_get data ''container_info'' = container_info"
    and v: "task_id \<noteq> PNone" "\<not> isl (as_dict task_data)" "\<not> isl (as_dict container_info)"
    by (auto simp: pulled_task_def split: if_splits)
  from v as_dict_none have "task_data \<noteq> PNone" "container_info \<noteq> PNone" by auto
  with Some t v show ?thesis
    by (simp add: poll_cycle_answer dispatch_valid)
qed

lemma pull_kinds:
  "transport_failure p \<or> bad_body p \<or> server_exception p \<or> no_task p \<or> invalid_task_data p
   \<or> pulled_task p \<noteq> None"
proof (cases "answer p")
  case None
  then show ?thesis using answer_kinds by blast
next
  case (Some data)
  then show ?thesis
    by (auto simp: no_task_answer invalid_task_data_def pulled_task_def)
qed

text \<open>
  C3 (amended).  Every answer of the control plane is of one of six kinds.  After a
  transport failure (timeout, connection error, other exception, status other than 200),
  an unreadable body, a server-side exception flag or invalid task data, the error counter
  is one higher and nothing is reported.  After an answer without task it is zero.  After
  an answer with a task, the callback runs on that task: when it returns a truthy
  dictionary, \<open>send_task_status\<close> is called with it and the counter is zero, whatever that
  call returns; when it returns nothing or raises, the counter is one higher and nothing
  is reported.  In every cycle but one answered with a server-side exception flag, the
  wait is 60 seconds when the counter after the cycle is 5 or more and 10 seconds
  otherwise.
\<close>

theorem poll_cycle_backoff:
  assumes "r = poll_cycle send_task_status callback st c p"
  shows "(transport_failure p \<or> bad_body p \<or> server_exception p \<or> no_task p \<or> invalid_task_data p
          \<or> pulled_task p \<noteq> None) \<and>
         (\<not> server_exception p \<longrightarrow> wait (fst r) = (if 5 \<le> counter (fst r) then 60 else 10)) \<and>
         (transport_failure p \<or> bad_body p \<or> server_exception p \<or> invalid_task_data p \<longrightarrow>
            counter (fst r) = c + 1 \<and> reports (fst r) = [] \<and> snd r = st) \<and>
         (no_task p \<longrightarrow> counter (fst r) = 0 \<and> reports (fst r) = [] \<and> snd r = st) \<and>
         (pulled_task p = Some (task_id, task_data, container_info) \<and>
          callback st (full_task task_id task_data container_info) = (Inr result, st') \<and>
          reportable result \<longrightarrow>
            counter (fst r) = 0 \<and>
            reports (fst r) = [(task_id, result, send_task_status task_id result)] \<and> snd r = st') \<and>
         (pulled_task p = Some (task_id, task_data, container_info) \<and>
          callback st (full_task task_id task_data container_info) = (Inr result, st') \<and>
          \<not> reportable result \<longrightarrow>
            counter (fst r) = c + 1 \<and> reports (fst r) = [] \<and> snd r = st') \<and>
         (pulled_task p = Some (task_id, task_data, container_info) \<and>
          callback st (full_task task_id task_data container_info) = (Inl e, st') \<longrightarrow>
            counter (fst r) = c + 1 \<and> reports (fst r) = [] \<and> snd r = st')"
proof -
  have w: "\<not> server_exception p \<Longrightarrow> wait (fst r) = (if 5 \<le> counter (fst r) then 60 else 10)"
  proof (cases "answer p")
    case None
    assume "\<not> server_exception p"
    with None show ?thesis
      by (simp add: assms poll_cycle_no_answer error_cycle_def backoff_wait_def max_consecutive_errors_def)
  next
    case (Some data)
    show ?thesis
      unfolding assms poll_cycle_answer [OF Some]
      by (auto simp: dispatch_def error_cycle_def clean_cycle_def backoff_wait_def
            max_consecutive_errors_def split: sum.splits prod.splits)
  qed
  have f: "transport_failure p \<or> bad_body p \<or> server_exception p \<or> invalid_task_data p \<Longrightarrow>
            counter (fst r) = c + 1 \<and> reports (fst r) = [] \<and> snd r = st"
    using poll_cycle_failure [of p send_task_status callback st c]
      poll_cycle_server_exception [of p send_task_status callback st c]
    by (auto simp: assms error_cycle_def)
  have n: "no_task p \<Longrightarrow> counter (fst r) = 0 \<and> reports (fst r) = [] \<and> snd r = st"
    by (simp add: assms poll_cycle_no_task clean_cycle_def)
  show ?thesis
    using pull_kinds [of p] w f n
    by (auto simp: assms poll_cycle_pulled error_cycle_def clean_cycle_def)
qed

theorem poll_cycle_backoff_witness:
  "counter (fst (poll_cycle (\<lambda>task_id result. True) demo_callback () 4 Timeout)) = 5 \<and>
   wait (fst (poll_cycle (\<lambda>task_id result. True) demo_callback () 4 Timeout)) = 60 \<and>
   counter (fst (poll_cycle (\<lambda>task_id result. True) demo_callback () 5 demo_no_task_response)) = 0 \<and>
   wait (fst (poll_cycle (\<lambda>task_id result. True) demo_callback () 5 demo_no_task_response)) = 10 \<and>
   counter (fst (poll_cycle (\<lambda>task_id result. False) demo_callback () 5 demo_task_response)) = 0 \<and>
   wait (fst (poll_cycle (\<lambda>task_id result. False) demo_callback () 5 demo_task_response)) = 10 \<and>
   reports (fst (poll_cycle (\<lambda>task_id result. False) demo_callback () 5 demo_task_response))
     = [(PInt 1, PDict [(PStr ''status'', PStr ''running'')], False)] \<and>
   counter (fst (poll_cycle (\<lambda>task_id result. True) none_callback () 4 demo_task_response)) = 5 \<and>
   wait (fst (poll_cycle (\<lambda>task_id result. True) none_callback () 4 demo_task_response)) = 60 \<and>
   reports (fst (poll_cycle (\<lambda>task_id result. True) none_callback () 4 demo_task_response)) = []"
proof -
  let ?td = "PDict [(PStr ''docker_image'', PStr ''x'')]"
  let ?ci = "PDict [(PStr ''ssh_password'', PStr ''p'')]"
  let ?res = "PDict [(PStr ''status'', PStr ''running'')]"
  have a: "transport_failure Timeout" by (simp add: transport_failure_def)
  have b: "\<not> server_exception Timeout" by (simp add: server_exception_def)
  have c: "no_task demo_no_task_response" by code_simp
  have d: "\<not> server_exception demo_no_task_response" by code_simp
  have e: "pulled_task demo_task_response = Some (PInt 1, ?td, ?ci)" by code_simp
  have f: "\<not> server_exception demo_task_response" by code_simp
  have g: "demo_callback () (full_task (PInt 1) ?td ?ci) = (Inr ?res, ())"
    by (simp add: demo_callback_def)
  have h: "reportable ?res" by (simp add: reportable_def as_dict_def)
  have i: "none_callback () (full_task (PInt 1) ?td ?ci) = (Inr PNone, ())"
    by (simp add: none_callback_def)
  have j: "\<not> reportable PNone" by (simp add: reportable_def)
  show ?thesis
    using poll_cycle_backoff [OF refl, of Timeout "\<lambda>task_id result. True" demo_callback "()" 4]
      poll_cycle_backoff [OF refl, of demo_no_task_response "\<lambda>task_id result. True" demo_callback "()" 5]
      poll_cycle_backoff [OF refl, of demo_task_response "\<lambda>task_id result. False" demo_callback "()" 5
        "PInt 1" ?td ?ci ?res "()"]
      poll_cycle_backoff [OF refl, of demo_task_response "\<lambda>task_id result. True" none_callback "()" 4
        "PInt 1" ?td ?ci PNone "()"]
      a b c d e f g h i j
    by simp
qed

text \<open>
  Five cycles in a row whose status report fails, and five in a row answered with a
  server-side exception flag: as the specification is worded the fifth wait is 60 seconds; the
  code waits 10 seconds every time, with the counter at 0 in the first run and at 5 at the
  end of the second.
\<close>

theorem poll_backoff_counterexample:
  "map wait (poll_for_tasks (PStr ''agent'') (\<lambda>task_id result. False) demo_callback ()
      [demo_task_response, demo_task_response, demo_task_response, demo_task_response,
       demo_task_response]) = [10, 10, 10, 10, 10] \<and>
   map counter (poll_for_tasks (PStr ''agent'') (\<lambda>task_id result. False) demo_callback ()
      [demo_task_response, demo_task_response, demo_task_response, demo_task_response,
       demo_task_response]) = [0, 0, 0, 0, 0] \<and>
   map (\<lambda>cy. map (\<lambda>(task_id, result, ok). ok) (reports cy))
     (poll_for_tasks (PStr ''agent'') (\<lambda>task_id result. False) demo_callback ()
      [demo_task_response, demo_task_response, demo_task_response, demo_task_response,
       demo_task_response]) = [[False], [False], [False], [False], [False]] \<and>
   map wait (poll_for_tasks (PStr ''agent'') (\<lambda>task_id result. True) demo_callback ()
      [demo_exception_response, demo_exception_response, demo_exception_response,
       demo_exception_response, demo_exception_response]) = [10, 10, 10, 10, 10] \<and>
   map counter (poll_for_tasks (PStr ''agent'') (\<lambda>task_id result. True) demo_callback ()
      [demo_exception_response, demo_exception_response, demo_exception_response,
       demo_exception_response, demo_exception_response]) = [1, 2, 3, 4, 5] \<and>
   spec_waits 0 [True, True, True, True, True] = [10, 10, 10, 10, 60]"
  by code_simp

end
